theory Spec2Isabelle
  imports Complex_Main "HOL-Library.Sublist"
begin

section \<open>Python strings\<close>

text \<open>
  A Python \<open>str\<close> is modelled as a \<open>string\<close> (a list of \<open>char\<close>). The model is exact on
  ASCII text. The few non-ASCII characters that occur in literals of the source (emoji, the
  bullet) are written as their UTF-8 bytes; such bytes are never whitespace, digits or
  letters with a case, so \<open>strip\<close>, \<open>isdigit\<close> and \<open>lower\<close> leave them alone.
\<close>

definition isspace :: "char \<Rightarrow> bool" where
  \<comment> \<open>the ASCII characters for which \<open>str.isspace\<close> holds\<close>
  "isspace c = (c \<in> set [CHR 0x09, CHR 0x0A, CHR 0x0B, CHR 0x0C, CHR 0x0D,
                           CHR 0x1C, CHR 0x1D, CHR 0x1E, CHR 0x1F, CHR 0x20])"

definition isdigit :: "char \<Rightarrow> bool" where
  "isdigit c = (c \<in> set ''0123456789'')"

definition isalpha :: "char \<Rightarrow> bool" where
  "isalpha c = (c \<in> set ''abcdefghijklmnopqrstuvwxyzABCDEFGHIJKLMNOPQRSTUVWXYZ'')"

definition lower_char :: "char \<Rightarrow> char" where
  "lower_char c =
     (case map_of (zip ''ABCDEFGHIJKLMNOPQRSTUVWXYZ'' ''abcdefghijklmnopqrstuvwxyz'') c of
        Some d \<Rightarrow> d | None \<Rightarrow> c)"

definition upper_char :: "char \<Rightarrow> char" where
  "upper_char c =
     (case map_of (zip ''abcdefghijklmnopqrstuvwxyz'' ''ABCDEFGHIJKLMNOPQRSTUVWXYZ'') c of
        Some d \<Rightarrow> d | None \<Rightarrow> c)"

definition lower :: "string \<Rightarrow> string" where
  "lower s = map lower_char s"

definition upper :: "string \<Rightarrow> string" where
  "upper s = map upper_char s"

definition lstrip :: "string \<Rightarrow> string" where
  "lstrip s = dropWhile isspace s"

definition rstrip :: "string \<Rightarrow> string" where
  "rstrip s = rev (dropWhile isspace (rev s))"

definition strip :: "string \<Rightarrow> string" where
  "strip s = rstrip (lstrip s)"

text \<open>\<open>sub in s\<close>: the substring test.\<close>

fun str_in :: "string \<Rightarrow> string \<Rightarrow> bool" where
  "str_in sub [] = (sub = [])"
| "str_in sub (c # cs) = (prefix sub (c # cs) \<or> str_in sub cs)"

text \<open>
  \<open>re.split\<close> on a character class, and \<open>str.split\<close> on one character: the pieces between
  the separators, empty pieces included; the empty string gives one empty piece.
\<close>

fun split_on :: "(char \<Rightarrow> bool) \<Rightarrow> string \<Rightarrow> string list" where
  "split_on p [] = [[]]"
| "split_on p (c # cs) =
     (if p c then [] # split_on p cs
      else (case split_on p cs of w # ws \<Rightarrow> (c # w) # ws | [] \<Rightarrow> [[c]]))"

text \<open>\<open>sep.join(xs)\<close>.\<close>

fun join :: "string \<Rightarrow> string list \<Rightarrow> string" where
  "join sep [] = []"
| "join sep [x] = x"
| "join sep (x # y # ys) = x @ sep @ join sep (y # ys)"

text \<open>\<open>str(n)\<close> for an integer, as the f-strings and \<open>format\<close> print it.\<close>

fun str_nat :: "nat \<Rightarrow> string" where
  "str_nat n =
     (if n < 10 then [''0123456789'' ! n]
      else str_nat (n div 10) @ [''0123456789'' ! (n mod 10)])"

definition str_int :: "int \<Rightarrow> string" where
  "str_int i = (if i < 0 then CHR ''-'' # str_nat (nat (- i)) else str_nat (nat i))"

text \<open>
  The slice \<open>xs[:n]\<close> for a Python integer \<open>n\<close>: a negative \<open>n\<close> counts from the end.
\<close>

definition slice_to :: "int \<Rightarrow> 'a list \<Rightarrow> 'a list" where
  "slice_to n xs = (if 0 \<le> n then take (nat n) xs else take (length xs - nat (- n)) xs)"

section \<open>Python floats read from text\<close>

text \<open>
  \<open>float(s)\<close> either raises \<open>ValueError\<close> (here \<open>None\<close>) or yields a float, which is a finite
  number, an infinity or NaN. A finite value is kept as the exact decimal number that was
  written; the rounding to binary64 is outside the model. Every comparison with NaN is
  false, as in Python.
\<close>

datatype pyfloat = Finite rat | PosInf | NegInf | NaN

definition fl_lt :: "pyfloat \<Rightarrow> rat \<Rightarrow> bool" where
  "fl_lt x r = (case x of Finite v \<Rightarrow> v < r | NegInf \<Rightarrow> True | PosInf \<Rightarrow> False | NaN \<Rightarrow> False)"

definition fl_gt :: "pyfloat \<Rightarrow> rat \<Rightarrow> bool" where
  "fl_gt x r = (case x of Finite v \<Rightarrow> v > r | NegInf \<Rightarrow> False | PosInf \<Rightarrow> True | NaN \<Rightarrow> False)"

text \<open>\<open>digitpart ::= digit (["_"] digit)*\<close>, read greedily; the digits and the rest.\<close>

function digitpart :: "string \<Rightarrow> string \<times> string" where
  "digitpart [] = ([], [])"
| "digitpart (c # cs) =
     (if \<not> isdigit c then ([], c # cs)
      else (let cs' = (case cs of
                         u # d # r \<Rightarrow> if u = CHR ''_'' \<and> isdigit d then d # r else cs
                       | _ \<Rightarrow> cs);
                (ds, rest) = digitpart cs'
            in (c # ds, rest)))"
  by pat_completeness auto
termination
  by (relation "measure length") (auto split: list.splits)

definition digit_val :: "char \<Rightarrow> nat" where
  "digit_val c = length (takeWhile (\<lambda>d. d \<noteq> c) ''0123456789'')"

definition digits_val :: "string \<Rightarrow> nat" where
  "digits_val ds = foldl (\<lambda>a c. 10 * a + digit_val c) 0 ds"

fun parse_sign :: "string \<Rightarrow> bool \<times> string" where
  "parse_sign [] = (False, [])"
| "parse_sign (c # cs) =
     (if c = CHR ''-'' then (True, cs) else if c = CHR ''+'' then (False, cs)
      else (False, c # cs))"

definition scale10 :: "rat \<Rightarrow> int \<Rightarrow> rat" where
  "scale10 x k = (if 0 \<le> k then x * 10 ^ nat k else x / 10 ^ nat (- k))"

text \<open>
  \<open>floatnumber ::= number [exponent]\<close>, \<open>number ::= [digitpart] "." digitpart | digitpart ["."]\<close>,
  \<open>exponent ::= ("e" | "E") [sign] digitpart\<close>; the whole text must be used up.
\<close>

definition float_number :: "string \<Rightarrow> rat option" where
  "float_number s =
     (let (ip, r1) = digitpart s;
          (fp, r2) = (case r1 of c # r \<Rightarrow> if c = CHR ''.'' then digitpart r else ([], r1)
                      | [] \<Rightarrow> ([], r1));
          m = rat_of_nat (digits_val (ip @ fp));
          k = - int (length fp)
      in if ip = [] \<and> fp = [] then None
         else (case r2 of
                 [] \<Rightarrow> Some (scale10 m k)
               | e # r3 \<Rightarrow>
                   if e = CHR ''e'' \<or> e = CHR ''E'' then
                     (let (neg, r4) = parse_sign r3; (ed, r5) = digitpart r4
                      in if ed = [] \<or> r5 \<noteq> [] then None
                         else Some (scale10 m
                                (k + (if neg then - int (digits_val ed) else int (digits_val ed)))))
                   else None))"

definition py_float :: "string \<Rightarrow> pyfloat option" where
  "py_float s =
     (let (neg, r) = parse_sign (strip s); l = lower r
      in if l = ''inf'' \<or> l = ''infinity'' then Some (if neg then NegInf else PosInf)
         else if l = ''nan'' then Some NaN
         else map_option (\<lambda>v. Finite (if neg then - v else v)) (float_number r))"

section \<open>Validation of candidate information\<close>

text \<open>
  \<open>validators.email\<close> belongs to a library outside the repository; it is the parameter
  \<open>email_ok\<close>.
\<close>

definition validate_email :: "(string \<Rightarrow> bool) \<Rightarrow> string \<Rightarrow> bool \<times> string" where
  "validate_email email_ok email =
     (if email = [] then (False, ''Email is required'')
      else if \<not> email_ok email then (False, ''Please enter a valid email address'')
      else (True, []))"

definition validate_phone :: "string \<Rightarrow> bool \<times> string" where
  "validate_phone phone =
     (if phone = [] then (False, ''Phone number is required'')
      else (let cleaned_phone = filter isdigit phone
            in if length cleaned_phone < 10 then (False, ''Phone number must be at least 10 digits'')
               else if length cleaned_phone > 15 then (False, ''Phone number is too long'')
               else (True, [])))"

definition name_char :: "char \<Rightarrow> bool" where
  "name_char c = (isalpha c \<or> isspace c \<or> c = CHR ''-'' \<or> c = CHR ''.'' \<or> c = CHR 0x27)"

definition validate_name :: "string \<Rightarrow> bool \<times> string" where
  "validate_name name =
     (if name = [] \<or> strip name = [] then (False, ''Name is required'')
      else if length (strip name) < 2 then (False, ''Name must be at least 2 characters long'')
      else if \<not> (strip name \<noteq> [] \<and> list_all name_char (strip name))
        then (False, ''Name contains invalid characters'')
      else (True, []))"

definition validate_experience :: "string \<Rightarrow> bool \<times> string" where
  "validate_experience experience =
     (if experience = [] then (False, ''Years of experience is required'')
      else (case py_float experience of
              None \<Rightarrow> (False, ''Please enter a valid number for years of experience'')
            | Some years \<Rightarrow>
                if fl_lt years 0 then (False, ''Years of experience cannot be negative'')
                else if fl_gt years 50 then (False, ''Years of experience seems too high'')
                else (True, [])))"

definition dangerous_char :: "char \<Rightarrow> bool" where
  "dangerous_char c = (c \<in> set [CHR ''<'', CHR ''>'', CHR 0x22, CHR 0x27, CHR '';'', CHR 0x5C])"

definition sanitize_input :: "string \<Rightarrow> string" where
  "sanitize_input text =
     (if text = [] then []
      else strip (take 500 (filter (\<lambda>c. \<not> dangerous_char c) text)))"

definition tech_sep :: "char \<Rightarrow> bool" where
  "tech_sep c = (c \<in> set [CHR '','', CHR '';'', CHR ''|'', CHR 0x0A])"

definition tech_tokens :: "string \<Rightarrow> string list" where
  \<comment> \<open>\<open>[tech.strip() for tech in re.split(r'[,;|\n]', s) if tech.strip()]\<close>\<close>
  "tech_tokens s = map strip (filter (\<lambda>tech. strip tech \<noteq> []) (split_on tech_sep s))"

definition validate_tech_stack :: "string \<Rightarrow> bool \<times> string" where
  "validate_tech_stack tech_stack =
     (if tech_stack = [] \<or> strip tech_stack = [] then (False, ''Please enter at least one technology'')
      else (let techs = tech_tokens tech_stack
            in if length techs = 0 then (False, ''Please enter at least one technology'')
               else if length techs > 10 then (False, ''Please limit to 10 technologies maximum'')
               else (True, [])))"

section \<open>The text-generation adapter\<close>

text \<open>
  What lies outside the program is given by an environment of oracles: the e-mail syntax
  check of the \<open>validators\<close> library, the printing of a float, whether a Gemini model was
  configured, what the \<open>n\<close>-th call of \<open>generate_content\<close> does on a prompt (it raises, or
  it yields \<open>response.text\<close>), and the draws of the random number generator. The effects
  of the program on the outside are kept in a \<open>world\<close>: how many calls and draws were made,
  and the trace of what was slept, shown and logged.
\<close>

datatype attempt = Raises | Text string

datatype event =
    Slept nat
  | Warned string
  | Printed string
  | Logged string
  | Success string
  | Info string

datatype error = IndexError | ValueError | StopException

record env =
  email_ok :: "string \<Rightarrow> bool"
  float_str :: "pyfloat \<Rightarrow> string"
  model_cfg :: bool
  generate_content :: "nat \<Rightarrow> string \<Rightarrow> attempt"
  random_draw :: "nat \<Rightarrow> nat"
  random_sample :: "nat \<Rightarrow> string list \<Rightarrow> nat \<Rightarrow> string list"

record world =
  gen_calls :: nat
  rnd_calls :: nat
  trace :: "event list"

definition TECHNICAL_QUESTION_GENERATOR :: "string \<Rightarrow> string \<Rightarrow> string \<Rightarrow> string \<Rightarrow> string" where
  "TECHNICAL_QUESTION_GENERATOR num_questions technology experience_level years =
     ''You are an expert technical interviewer for a hiring company called TalentScout. \<newline>'' @
     ''    Generate '' @
     num_questions @
     '' relevant, practical technical questions for a candidate with experience in '' @
     technology @
     ''.\<newline>'' @
     ''    \<newline>'' @
     ''    Questions should be:\<newline>'' @
     ''    - Appropriate for '' @
     experience_level @
     '' level ('' @
     years @
     '' years experience)\<newline>'' @
     ''    - Focused on real-world application, not just theory\<newline>'' @
     ''    - Clear and specific\<newline>'' @
     ''    - Progressively challenging\<newline>'' @
     ''    \<newline>'' @
     ''    Return only the questions, numbered 1-'' @
     num_questions @
     '', without additional commentary.''"

definition RESPONSE_EVALUATOR :: "string \<Rightarrow> string \<Rightarrow> string \<Rightarrow> string" where
  "RESPONSE_EVALUATOR question technology answer =
     ''You are an expert technical interviewer evaluating a candidate's response.\<newline>'' @
     ''    \<newline>'' @
     ''    Question: '' @
     question @
     ''\<newline>'' @
     ''    Technology: '' @
     technology @
     ''\<newline>'' @
     ''    Candidate's Answer: '' @
     answer @
     ''\<newline>'' @
     ''    \<newline>'' @
     ''    Provide a brief, encouraging follow-up response (2-3 sentences) that:\<newline>'' @
     ''    - Acknowledges their answer professionally\<newline>'' @
     ''    - Shows you understand their response\<newline>'' @
     ''    - Maintains a positive, supportive tone\<newline>'' @
     ''    - Does NOT reveal if the answer is correct or incorrect\<newline>'' @
     ''    \<newline>'' @
     ''    Keep it conversational and encouraging.''"

definition fallback_questions :: "string list" where
  "fallback_questions =
     [''1. Describe a challenging project you've worked on and how you approached solving the technical problems.'',
      ''2. How do you ensure code quality and maintainability in your projects?'',
      ''3. Explain a time when you had to learn a new technology quickly. How did you approach it?'']"

definition fallback_evaluations :: "string list" where
  "fallback_evaluations =
     [''Thank you for that detailed explanation. Your experience shows good technical understanding.'',
      ''I appreciate your thorough response. That demonstrates solid problem-solving skills.'',
      ''Great answer! Your approach shows good technical thinking and practical experience.'']"

definition fallback_generic :: "string" where
  "fallback_generic =
     ''Thank you for your response. Let's continue with the next step.''"

definition fallback_technical_questions :: string where
  "fallback_technical_questions = join ''\<newline>'' fallback_questions"

definition fallback_evaluation :: "env \<Rightarrow> 'a world_scheme \<Rightarrow> string \<times> 'a world_scheme" where
  \<comment> \<open>\<open>random.choice(responses)\<close>\<close>
  "fallback_evaluation e w =
     (fallback_evaluations ! (random_draw e (rnd_calls w) mod length fallback_evaluations),
      w\<lparr>rnd_calls := Suc (rnd_calls w)\<rparr>)"

definition fallback_response :: "env \<Rightarrow> string \<Rightarrow> 'a world_scheme \<Rightarrow> string \<times> 'a world_scheme" where
  "fallback_response e prompt w =
     (if str_in ''technical question'' (lower prompt) then (fallback_technical_questions, w)
      else if str_in ''evaluate'' (lower prompt) \<or> str_in ''response'' (lower prompt)
        then fallback_evaluation e w
      else (fallback_generic, w))"

text \<open>
  The retry loop of \<open>generate_response\<close>, over the attempts still to make. An attempt that
  raises is the last one when its index is \<open>max_retries - 1\<close>; otherwise the loop sleeps
  \<open>2 ** attempt\<close> seconds. An attempt that yields an empty text goes on to the next one
  without sleeping.
\<close>

fun retry_loop :: "env \<Rightarrow> string \<Rightarrow> int \<Rightarrow> nat list \<Rightarrow> 'a world_scheme \<Rightarrow> string \<times> 'a world_scheme" where
  "retry_loop e prompt max_retries [] w = fallback_response e prompt w"
| "retry_loop e prompt max_retries (attempt # rest) w =
     (let w1 = w\<lparr>gen_calls := Suc (gen_calls w)\<rparr>
      in case generate_content e (gen_calls w) prompt of
           Text t \<Rightarrow>
             if t \<noteq> [] then (strip t, w1) else retry_loop e prompt max_retries rest w1
         | Raises \<Rightarrow>
             if int attempt = max_retries - 1
             then fallback_response e prompt
                    (w1\<lparr>trace := trace w1 @ [Warned ''LLM unavailable, using fallback response'']\<rparr>)
             else retry_loop e prompt max_retries rest
                    (w1\<lparr>trace := trace w1 @ [Slept (2 ^ attempt)]\<rparr>))"

definition generate_response :: "env \<Rightarrow> string \<Rightarrow> int \<Rightarrow> 'a world_scheme \<Rightarrow> string \<times> 'a world_scheme" where
  "generate_response e prompt max_retries w =
     (if \<not> model_cfg e then fallback_response e prompt w
      else retry_loop e prompt max_retries [0..<nat max_retries] w)"

section \<open>Question generation\<close>

definition bullet :: string where
  "bullet = [CHR 0xE2, CHR 0x80, CHR 0xA2]"

text \<open>\<open>question.lstrip('-\<bullet>')\<close>: leading hyphens and bullets are dropped.\<close>

fun lstrip_marks :: "string \<Rightarrow> string" where
  "lstrip_marks [] = []"
| "lstrip_marks (c # cs) =
     (if c = CHR ''-'' then lstrip_marks cs
      else if prefix bullet (c # cs) then lstrip_marks (drop 3 (c # cs))
      else c # cs)"

definition after_dot :: "string \<Rightarrow> string" where
  \<comment> \<open>\<open>line.split('.', 1)[-1]\<close> for a line that contains a dot\<close>
  "after_dot line = tl (dropWhile (\<lambda>c. c \<noteq> CHR ''.'') line)"

definition parse_line :: "string \<Rightarrow> string option" where
  "parse_line raw =
     (let line = strip raw
      in case line of
           [] \<Rightarrow> None
         | c # _ \<Rightarrow>
             if isdigit c \<or> prefix ''-'' line \<or> prefix bullet line then
               (let question = (if CHR ''.'' \<in> set line then strip (after_dot line) else line);
                    question' = strip (lstrip_marks question)
                in if question' \<noteq> [] then Some question' else None)
             else None)"

definition parse_questions :: "string \<Rightarrow> string list" where
  "parse_questions response =
     List.map_filter parse_line (split_on (\<lambda>c. c = CHR 0x0A) response)"

definition fallback_templates :: "string \<Rightarrow> string list" where
  "fallback_templates technology =
     [''What are the key features and benefits of '' @ technology @ ''?'',
      ''Describe a project where you used '' @ technology @ '' effectively.'',
      ''What challenges have you faced when working with '' @ technology @ ''?'']"

definition experience_level_of :: "pyfloat \<Rightarrow> string" where
  "experience_level_of experience_years =
     (if fl_lt experience_years 2 then ''junior''
      else if fl_lt experience_years 5 then ''mid-level'' else ''senior'')"

definition generate_technical_questions ::
  "env \<Rightarrow> string \<Rightarrow> pyfloat \<Rightarrow> int \<Rightarrow> 'a world_scheme \<Rightarrow> string list \<times> 'a world_scheme" where
  "generate_technical_questions e technology experience_years num_questions w =
     (let prompt = TECHNICAL_QUESTION_GENERATOR (str_int num_questions) technology
                     (experience_level_of experience_years) (float_str e experience_years);
          (response, w') = generate_response e prompt 3 w;
          questions = parse_questions response;
          questions' = (if int (length questions) < num_questions
                        then questions @ slice_to (num_questions - int (length questions))
                                           (fallback_templates technology)
                        else questions)
      in (slice_to num_questions questions', w'))"

definition evaluate_technical_response ::
  "env \<Rightarrow> string \<Rightarrow> string \<Rightarrow> string \<Rightarrow> 'a world_scheme \<Rightarrow> string \<times> 'a world_scheme" where
  "evaluate_technical_response e question answer technology w =
     generate_response e (RESPONSE_EVALUATOR question technology answer) 3 w"

definition FALLBACK_QUESTION_BANK :: "(string \<times> string list) list" where
  "FALLBACK_QUESTION_BANK =
     [(''react'',
       [''What are React Hooks and how do they differ from class components?'',
        ''Explain the concept of Virtual DOM and its benefits.'',
        ''How do you handle state management in a large React application?'',
        ''What is the difference between controlled and uncontrolled components?'',
        ''How would you optimize the performance of a React application?'']),
      (''angular'',
       [''What is dependency injection in Angular and why is it important?'',
        ''Explain the difference between Angular components and directives.'',
        ''How do you handle routing in Angular applications?'',
        ''What are Angular services and how do you create them?'',
        ''Describe the Angular component lifecycle hooks.'']),
      (''vue'',
       [''What is the Vue.js reactivity system and how does it work?'',
        ''Explain the difference between Vue 2 and Vue 3 Composition API.'',
        ''How do you handle component communication in Vue.js?'',
        ''What are Vue directives and can you create custom ones?'',
        ''How would you implement state management in a Vue application?'']),
      (''javascript'',
       [''Explain the difference between let, const, and var in JavaScript.'',
        ''What are closures in JavaScript and provide an example?'',
        ''How does prototypal inheritance work in JavaScript?'',
        ''What is the event loop and how does it handle asynchronous operations?'',
        ''Explain the concept of hoisting in JavaScript.'']),
      (''typescript'',
       [''What are the main benefits of using TypeScript over JavaScript?'',
        ''Explain generics in TypeScript with an example.'',
        ''What is the difference between interface and type in TypeScript?'',
        ''How do you handle optional properties and null checks in TypeScript?'',
        ''What are decorators in TypeScript and how are they used?'']),
      (''python'',
       [''What are Python decorators and how do you create custom ones?'',
        ''Explain the difference between lists and tuples in Python.'',
        ''How does Python's garbage collection work?'',
        ''What is the Global Interpreter Lock (GIL) in Python?'',
        ''How do you handle exceptions in Python applications?'']),
      (''java'',
       [''Explain the concept of Object-Oriented Programming in Java.'',
        ''What is the difference between abstract classes and interfaces?'',
        ''How does garbage collection work in Java?'',
        ''What are Java Streams and how do you use them?'',
        ''Explain the concept of multithreading in Java.'']),
      (''node'',
       [''What is the event-driven architecture in Node.js?'',
        ''How do you handle asynchronous operations in Node.js?'',
        ''What is the difference between require() and import in Node.js?'',
        ''How do you manage memory leaks in Node.js applications?'',
        ''Explain the concept of middleware in Express.js.'']),
      (''express'',
       [''How do you implement authentication in Express.js?'',
        ''What are Express.js middleware functions and how do they work?'',
        ''How do you handle error handling in Express applications?'',
        ''What is the difference between app.use() and app.get() in Express?'',
        ''How do you implement rate limiting in Express.js?'']),
      (''mongodb'',
       [''What is the difference between SQL and NoSQL databases?'',
        ''How do you design schemas in MongoDB?'',
        ''What are MongoDB aggregation pipelines?'',
        ''How do you handle indexing in MongoDB for performance?'',
        ''Explain the concept of sharding in MongoDB.'']),
      (''mysql'',
       [''What are the different types of JOINs in MySQL?'',
        ''How do you optimize MySQL queries for better performance?'',
        ''What is database normalization and why is it important?'',
        ''How do you handle transactions in MySQL?'',
        ''What are stored procedures and when would you use them?'']),
      (''postgresql'',
       [''What are the advantages of PostgreSQL over other databases?'',
        ''How do you implement full-text search in PostgreSQL?'',
        ''What are PostgreSQL extensions and how do you use them?'',
        ''How do you handle JSON data in PostgreSQL?'',
        ''Explain the concept of ACID properties in PostgreSQL.'']),
      (''aws'',
       [''What are the core services of AWS and their use cases?'',
        ''How do you implement auto-scaling in AWS?'',
        ''What is the difference between EC2 and Lambda?'',
        ''How do you secure applications deployed on AWS?'',
        ''Explain the concept of Infrastructure as Code with AWS.'']),
      (''docker'',
       [''What is containerization and how does Docker implement it?'',
        ''How do you optimize Docker images for production?'',
        ''What is the difference between Docker images and containers?'',
        ''How do you handle data persistence in Docker containers?'',
        ''Explain Docker networking and how containers communicate.'']),
      (''kubernetes'',
       [''What are the core components of Kubernetes architecture?'',
        ''How do you deploy applications to Kubernetes clusters?'',
        ''What are Kubernetes pods and how do they work?'',
        ''How do you handle service discovery in Kubernetes?'',
        ''Explain the concept of Kubernetes namespaces.''])]"

definition tech_mapping :: "(string \<times> string) list" where
  "tech_mapping =
     [(''js'', ''javascript''),
      (''ts'', ''typescript''),
      (''nodejs'', ''node''),
      (''node.js'', ''node''),
      (''reactjs'', ''react''),
      (''react.js'', ''react''),
      (''angularjs'', ''angular''),
      (''vuejs'', ''vue''),
      (''vue.js'', ''vue''),
      (''mongo'', ''mongodb''),
      (''postgres'', ''postgresql''),
      (''k8s'', ''kubernetes''),
      (''expressjs'', ''express''),
      (''express.js'', ''express'')]"

definition generic_questions :: "string \<Rightarrow> string list" where
  "generic_questions tech =
     [''What are the key features and benefits of '' @ tech @ ''?'',
      ''How would you implement best practices when working with '' @ tech @ ''?'',
      ''What challenges have you faced while working with '' @ tech @ '' and how did you solve them?'']"

definition normalize_tech_name :: "string \<Rightarrow> string" where
  "normalize_tech_name tech =
     (let tech_lower = strip (lower tech)
      in case map_of tech_mapping tech_lower of Some t \<Rightarrow> t | None \<Rightarrow> tech_lower)"

text \<open>
  \<open>random.sample(population, k)\<close> raises \<open>ValueError\<close> for a negative \<open>k\<close>; otherwise the
  sample is what the oracle draws.
\<close>

definition get_fallback_questions ::
  "env \<Rightarrow> string \<Rightarrow> int \<Rightarrow> 'a world_scheme \<Rightarrow> (error + string list) \<times> 'a world_scheme" where
  "get_fallback_questions e tech max_questions w =
     (case map_of FALLBACK_QUESTION_BANK (normalize_tech_name tech) of
        Some available_questions \<Rightarrow>
          (let k = min (int (length available_questions)) max_questions
           in if k < 0 then (Inl ValueError, w)
              else (Inr (random_sample e (rnd_calls w) available_questions (nat k)),
                    w\<lparr>rnd_calls := Suc (rnd_calls w)\<rparr>))
      | None \<Rightarrow> (Inr (slice_to max_questions (generic_questions tech)), w))"

text \<open>
  A dictionary that keeps the order in which its keys were first inserted: assigning to a
  key that is present replaces the value where it stands.
\<close>

fun dict_set :: "'k \<Rightarrow> 'v \<Rightarrow> ('k \<times> 'v) list \<Rightarrow> ('k \<times> 'v) list" where
  "dict_set k v [] = [(k, v)]"
| "dict_set k v ((k', v') # d) = (if k' = k then (k, v) # d else (k', v') # dict_set k v d)"

text \<open>
  The loop of \<open>generate_questions_for_tech_stack\<close>. The static questions are asked for inside
  the \<open>try\<close>; when that raises, the handler prints and asks for them once more, and what the
  second call raises leaves the function.
\<close>

fun questions_loop ::
  "env \<Rightarrow> int \<Rightarrow> pyfloat \<Rightarrow> string list \<Rightarrow> (string \<times> string list) list \<Rightarrow> 'a world_scheme
     \<Rightarrow> (error + (string \<times> string list) list) \<times> 'a world_scheme" where
  "questions_loop e max_questions_per_tech candidate_experience [] questions_by_tech w =
     (Inr questions_by_tech, w)"
| "questions_loop e max_questions_per_tech candidate_experience (tech # rest) questions_by_tech w =
     (let (llm_questions, w1) =
            generate_technical_questions e tech candidate_experience max_questions_per_tech w
      in if llm_questions \<noteq> [] then
           questions_loop e max_questions_per_tech candidate_experience rest
             (dict_set tech llm_questions questions_by_tech) w1
         else (case get_fallback_questions e tech max_questions_per_tech w1 of
                 (Inr qs, w2) \<Rightarrow>
                   questions_loop e max_questions_per_tech candidate_experience rest
                     (dict_set tech qs questions_by_tech) w2
               | (Inl err, w2) \<Rightarrow>
                   (let w3 = w2\<lparr>trace := trace w2 @ [Printed ''LLM question generation failed'']\<rparr>
                    in case get_fallback_questions e tech max_questions_per_tech w3 of
                         (Inr qs, w4) \<Rightarrow>
                           questions_loop e max_questions_per_tech candidate_experience rest
                             (dict_set tech qs questions_by_tech) w4
                       | (Inl err', w4) \<Rightarrow> (Inl err', w4))))"

definition generate_questions_for_tech_stack ::
  "env \<Rightarrow> string list \<Rightarrow> int \<Rightarrow> pyfloat \<Rightarrow> 'a world_scheme
     \<Rightarrow> (error + (string \<times> string list) list) \<times> 'a world_scheme" where
  "generate_questions_for_tech_stack e tech_stack max_questions_per_tech candidate_experience w =
     questions_loop e max_questions_per_tech candidate_experience tech_stack [] w"

section \<open>The conversation manager\<close>

datatype stage =
    GREETING
  | CONSENT
  | INFO_COLLECTION
  | TECH_ASSESSMENT
  | TECHNICAL_QUESTIONS
  | COMPLETION

record stored_answer =
  ans_question :: string
  ans_answer :: string
  ans_technology :: string

text \<open>
  \<open>candidate_data\<close> is a dictionary with the keys \<open>name\<close>, \<open>email\<close>, \<open>phone\<close>, \<open>experience\<close>,
  \<open>tech_stack\<close> and \<open>answers\<close>; a key that is absent is \<open>None\<close>.
\<close>

record candidate =
  cd_name :: "string option"
  cd_email :: "string option"
  cd_phone :: "string option"
  cd_experience :: "pyfloat option"
  cd_tech_stack :: "string list option"
  cd_answers :: "(string \<times> stored_answer) list option"

text \<open>
  The session state of Streamlit, with the keys the manager reads and writes, on top of
  the world. \<open>log_interaction\<close> appears in the trace with its interaction type.
\<close>

record session = world +
  stage :: stage
  candidate_data :: candidate
  messages :: "(string \<times> string) list"
  current_question_index :: nat
  technical_questions :: "(string \<times> string list) list"
  consent_given :: bool
  company_name :: "string option"

definition empty_candidate :: candidate where
  "empty_candidate =
     \<lparr>cd_name = None, cd_email = None, cd_phone = None, cd_experience = None,
      cd_tech_stack = None, cd_answers = None\<rparr>"

definition get_privacy_notice :: "string" where
  "get_privacy_notice =
     ''\<newline>'' @
     ''    **Privacy Notice for TalentScout AI Hiring Assistant**\<newline>'' @
     ''    \<newline>'' @
     ''    By using this service, you acknowledge that:\<newline>'' @
     ''    \<newline>'' @
     ''    '' @ [CHR 0xE2, CHR 0x80, CHR 0xA2] @ '' **Data Collection**: We collect your name, email, phone number, experience level, and technology skills for recruitment purposes only.\<newline>'' @
     ''    \<newline>'' @
     ''    '' @ [CHR 0xE2, CHR 0x80, CHR 0xA2] @ '' **Data Usage**: Your information will be used solely to assess your technical qualifications and match you with relevant opportunities.\<newline>'' @
     ''    \<newline>'' @
     ''    '' @ [CHR 0xE2, CHR 0x80, CHR 0xA2] @ '' **Data Security**: All data is encrypted and securely stored. Sensitive information is hashed for logging purposes.\<newline>'' @
     ''    \<newline>'' @
     ''    '' @ [CHR 0xE2, CHR 0x80, CHR 0xA2] @ '' **Data Retention**: Your data will be retained for 30 days maximum, after which it will be automatically deleted.\<newline>'' @
     ''    \<newline>'' @
     ''    '' @ [CHR 0xE2, CHR 0x80, CHR 0xA2] @ '' **Your Rights**: You can request data deletion at any time by typing 'delete my data' during the conversation.\<newline>'' @
     ''    \<newline>'' @
     ''    '' @ [CHR 0xE2, CHR 0x80, CHR 0xA2] @ '' **No Third-Party Sharing**: Your information will not be shared with third parties without explicit consent.\<newline>'' @
     ''    \<newline>'' @
     ''    '' @ [CHR 0xE2, CHR 0x80, CHR 0xA2] @ '' **Contact**: For privacy concerns, contact us at privacy@talentscout.com\<newline>'' @
     ''    \<newline>'' @
     ''    Do you consent to the collection and processing of your data as described above?\<newline>'' @
     ''    ''"

definition EXIT_KEYWORDS :: "string list" where
  "EXIT_KEYWORDS =
     [''exit'', ''quit'', ''bye'', ''goodbye'', ''stop'', ''end'', ''finish'', ''no thanks'', ''not interested'', ''cancel'']"

definition greeting_message :: "string \<Rightarrow> string" where
  "greeting_message company =
     ''\<newline>'' @
     ''        '' @ [CHR 0xF0, CHR 0x9F, CHR 0x91, CHR 0x8B] @ '' **Welcome to '' @
     company @
     '' AI Hiring Assistant!**\<newline>'' @
     ''        \<newline>'' @
     ''        I'm here to help assess your technical skills and match you with exciting opportunities. \<newline>'' @
     ''        \<newline>'' @
     ''        This conversation will take about 5-10 minutes and will cover:\<newline>'' @
     ''        '' @ [CHR 0xE2, CHR 0x80, CHR 0xA2] @ '' Basic information collection\<newline>'' @
     ''        '' @ [CHR 0xE2, CHR 0x80, CHR 0xA2] @ '' Your technology experience\<newline>'' @
     ''        '' @ [CHR 0xE2, CHR 0x80, CHR 0xA2] @ '' A few technical questions based on your skills\<newline>'' @
     ''        \<newline>'' @
     ''        Before we begin, I need to inform you about our data privacy practices.\<newline>'' @
     ''        \<newline>'' @
     ''        **Type 'continue' to proceed to the privacy notice, or 'exit' to leave.**\<newline>'' @
     ''        ''"

definition consent_empty_prompt :: "string" where
  "consent_empty_prompt =
     ''Please type 'continue' to proceed or 'exit' to leave.''"

definition consent_notice_suffix :: "string" where
  "consent_notice_suffix =
     ''\<newline>'' @
     ''\<newline>'' @
     ''**Please type 'I consent' to agree and continue, or 'exit' to leave.**''"

definition consent_reprompt :: "string" where
  "consent_reprompt =
     ''Please type 'continue' to proceed with the privacy notice, or 'exit' to leave the conversation.''"

definition consent_required_prompt :: "string" where
  "consent_required_prompt =
     ''Please type 'I consent' to agree to our privacy policy and continue, or 'exit' to leave.''"

definition start_info_collection :: "string" where
  "start_info_collection =
     ''\<newline>'' @
     ''        '' @ [CHR 0xE2, CHR 0x9C, CHR 0x85] @ '' **Thank you for your consent!**\<newline>'' @
     ''        \<newline>'' @
     ''        Now, let's collect some basic information about you.\<newline>'' @
     ''        \<newline>'' @
     ''        **Please provide your full name:**\<newline>'' @
     ''        ''"

definition name_rejected :: "string \<Rightarrow> string" where
  "name_rejected error_msg =
     [CHR 0xE2, CHR 0x9D, CHR 0x8C] @ '' '' @
     error_msg @
     ''\<newline>'' @
     ''\<newline>'' @
     ''**Please provide your full name:**''"

definition name_accepted :: "string" where
  "name_accepted =
     ''**Great! Now please provide your email address:**''"

definition email_rejected :: "string \<Rightarrow> string" where
  "email_rejected error_msg =
     [CHR 0xE2, CHR 0x9D, CHR 0x8C] @ '' '' @
     error_msg @
     ''\<newline>'' @
     ''\<newline>'' @
     ''**Please provide your email address:**''"

definition email_accepted :: "string" where
  "email_accepted =
     ''**Perfect! Now please provide your phone number:**''"

definition phone_rejected :: "string \<Rightarrow> string" where
  "phone_rejected error_msg =
     [CHR 0xE2, CHR 0x9D, CHR 0x8C] @ '' '' @
     error_msg @
     ''\<newline>'' @
     ''\<newline>'' @
     ''**Please provide your phone number:**''"

definition phone_accepted :: "string" where
  "phone_accepted =
     ''**Excellent! How many years of professional experience do you have? (Enter a number):**''"

definition experience_rejected :: "string \<Rightarrow> string" where
  "experience_rejected error_msg =
     [CHR 0xE2, CHR 0x9D, CHR 0x8C] @ '' '' @
     error_msg @
     ''\<newline>'' @
     ''\<newline>'' @
     ''**Please enter your years of professional experience (as a number):**''"

definition experience_accepted :: "string" where
  "experience_accepted =
     ''\<newline>'' @
     ''            **Fantastic! Now let's talk about your technical skills.**\<newline>'' @
     ''            \<newline>'' @
     ''            Please list the programming languages, frameworks, and technologies you're proficient in.\<newline>'' @
     ''            You can separate them with commas (e.g., '' @ [CHR 0x22] @ ''Python, React, MongoDB, AWS'' @ [CHR 0x22] @ ''):\<newline>'' @
     ''            ''"

definition collect_went_wrong :: "string" where
  "collect_went_wrong =
     ''Something went wrong. Please try again.''"

definition tech_stack_rejected :: "string \<Rightarrow> string" where
  "tech_stack_rejected error_msg =
     [CHR 0xE2, CHR 0x9D, CHR 0x8C] @ '' '' @
     error_msg @
     ''\<newline>'' @
     ''\<newline>'' @
     ''**Please list your technical skills (separated by commas):**''"

definition tech_stack_accepted :: "string list \<Rightarrow> string \<Rightarrow> string \<Rightarrow> string" where
  "tech_stack_accepted tech_list candidate_experience total_questions =
     ''\<newline>'' @
     ''        **Excellent! I've identified your technical expertise in: '' @
     join '', '' tech_list @
     ''**\<newline>'' @
     ''        \<newline>'' @
     ''        Based on your '' @
     candidate_experience @
     '' years of experience and skills, I've prepared '' @
     total_questions @
     '' personalized technical questions to better assess your knowledge.\<newline>'' @
     ''        \<newline>'' @
     ''        **Ready to begin the technical assessment? Type 'ready' to start:**\<newline>'' @
     ''        ''"

definition no_questions_message :: "string" where
  "no_questions_message =
     ''No technical questions available. Something went wrong.''"

definition ready_prompt :: "string" where
  "ready_prompt =
     ''**Type 'ready' when you're prepared to start the technical questions:**''"

definition progress_line :: "string \<Rightarrow> string \<Rightarrow> string \<Rightarrow> string" where
  "progress_line shown_number shown_total tech_upper =
     ''**Question '' @
     shown_number @
     '' of '' @
     shown_total @
     '' ('' @
     tech_upper @
     '')**''"

definition question_message :: "string \<Rightarrow> string \<Rightarrow> string" where
  "question_message progress question =
     ''\<newline>'' @
     ''        '' @
     progress @
     ''\<newline>'' @
     ''        \<newline>'' @
     ''        '' @
     question @
     ''\<newline>'' @
     ''        \<newline>'' @
     ''        **Please provide your answer:**\<newline>'' @
     ''        ''"

definition fallback_acknowledgment :: "string" where
  "fallback_acknowledgment =
     ''Thank you for that detailed explanation. Your technical knowledge is evident in your response.''"

definition completion_summary :: "string \<Rightarrow> string \<Rightarrow> string \<Rightarrow> string \<Rightarrow> string \<Rightarrow> string \<Rightarrow> string" where
  "completion_summary greet_name shown_name shown_experience shown_tech shown_count shown_email =
     ''\<newline>'' @
     ''        '' @ [CHR 0xF0, CHR 0x9F, CHR 0x8E, CHR 0x89] @ '' **Congratulations, '' @
     greet_name @
     ''!**\<newline>'' @
     ''        \<newline>'' @
     ''        You've successfully completed the TalentScout AI technical assessment!\<newline>'' @
     ''        \<newline>'' @
     ''        **Assessment Summary:**\<newline>'' @
     ''        '' @ [CHR 0xE2, CHR 0x80, CHR 0xA2] @ '' **Name:** '' @
     shown_name @
     ''\<newline>'' @
     ''        '' @ [CHR 0xE2, CHR 0x80, CHR 0xA2] @ '' **Experience:** '' @
     shown_experience @
     '' years\<newline>'' @
     ''        '' @ [CHR 0xE2, CHR 0x80, CHR 0xA2] @ '' **Technologies:** '' @
     shown_tech @
     ''\<newline>'' @
     ''        '' @ [CHR 0xE2, CHR 0x80, CHR 0xA2] @ '' **Questions Answered:** '' @
     shown_count @
     ''\<newline>'' @
     ''        \<newline>'' @
     ''        **What happens next?**\<newline>'' @
     ''        1. Our technical team will review your responses\<newline>'' @
     ''        2. We'll match your profile with suitable opportunities\<newline>'' @
     ''        3. You'll hear from us within 2-3 business days at '' @
     shown_email @
     ''\<newline>'' @
     ''        \<newline>'' @
     ''        **Thank you for your time and interest in TalentScout opportunities!**\<newline>'' @
     ''        \<newline>'' @
     ''        You can now close this window or type 'restart' to begin a new assessment.\<newline>'' @
     ''        ''"

definition empty_input_message :: "string" where
  "empty_input_message =
     ''Please provide a response to continue.''"

definition farewell_message :: "string" where
  "farewell_message =
     ''\<newline>'' @
     ''            '' @ [CHR 0xF0, CHR 0x9F, CHR 0x91, CHR 0x8B] @ '' **Thank you for your interest in TalentScout!**\<newline>'' @
     ''            \<newline>'' @
     ''            Your session has been ended. If you'd like to complete the assessment later, \<newline>'' @
     ''            please start a new conversation.\<newline>'' @
     ''            \<newline>'' @
     ''            Have a great day!\<newline>'' @
     ''            ''"

definition completed_message :: "string" where
  "completed_message =
     ''Assessment completed! Type 'restart' to begin a new assessment or close the window.''"

definition went_wrong_message :: "string" where
  "went_wrong_message =
     ''Something went wrong. Please type 'restart' to begin again.''"

definition continue_words :: "string list" where
  "continue_words = [''continue'', ''proceed'', ''next'', ''yes'']"

definition consent_words :: "string list" where
  "consent_words = [''i consent'', ''consent'', ''agree'', ''i agree'']"

definition ready_words :: "string list" where
  "ready_words = [''ready'', ''start'', ''begin'', ''yes'']"

definition log_interaction :: "string \<Rightarrow> 'a world_scheme \<Rightarrow> 'a world_scheme" where
  "log_interaction interaction_type w = w\<lparr>trace := trace w @ [Logged interaction_type]\<rparr>"

definition add_message :: "string \<Rightarrow> string \<Rightarrow> session \<Rightarrow> session" where
  "add_message role content s = s\<lparr>messages := messages s @ [(role, content)]\<rparr>"

text \<open>
  \<open>handle_data_deletion_request\<close> logs, shows two notices and calls \<open>st.stop()\<close>, which
  raises; it never returns.
\<close>

definition handle_data_deletion_request :: "session \<Rightarrow> session" where
  "handle_data_deletion_request s =
     (let s1 = log_interaction ''data_deletion_request'' s
      in s1\<lparr>trace := trace s1 @
           [Success ([CHR 0xE2, CHR 0x9C, CHR 0x85] @
                     '' Your data has been successfully deleted from our systems.''),
            Info ''Thank you for using TalentScout. You can close this window now.'']\<rparr>)"

definition check_exit_intent :: "string \<Rightarrow> session \<Rightarrow> (error + bool) \<times> session" where
  "check_exit_intent user_input s =
     (if user_input = [] then (Inr False, s)
      else (let user_input_lower = strip (lower user_input)
            in if user_input_lower \<in> set EXIT_KEYWORDS then (Inr True, s)
               else if list_ex (\<lambda>keyword. str_in keyword user_input_lower) EXIT_KEYWORDS
                 then (Inr True, s)
               else if str_in ''delete my data'' user_input_lower
                       \<or> str_in ''delete data'' user_input_lower
                 then (Inl StopException, handle_data_deletion_request s)
               else (Inr False, s)))"

definition handle_greeting_stage :: "session \<Rightarrow> string \<times> session" where
  "handle_greeting_stage s =
     (greeting_message (case company_name s of Some c \<Rightarrow> c | None \<Rightarrow> ''TalentScout''),
      s\<lparr>stage := CONSENT\<rparr>)"

definition handle_consent_stage :: "string \<Rightarrow> session \<Rightarrow> string \<times> session" where
  "handle_consent_stage user_input s =
     (if user_input = [] then (consent_empty_prompt, s)
      else if strip (lower user_input) \<in> set continue_words
        then (get_privacy_notice @ consent_notice_suffix, s\<lparr>stage := INFO_COLLECTION\<rparr>)
      else (consent_reprompt, s))"

definition collect_candidate_info :: "env \<Rightarrow> string \<Rightarrow> session \<Rightarrow> string \<times> session" where
  "collect_candidate_info e user_input s =
     (let candidate_data = candidate_data s
      in if cd_name candidate_data = None then
           (case validate_name user_input of
              (False, error_msg) \<Rightarrow> (name_rejected error_msg, s)
            | (True, _) \<Rightarrow>
                (name_accepted,
                 s\<lparr>candidate_data := candidate_data\<lparr>cd_name := Some (sanitize_input user_input)\<rparr>\<rparr>))
         else if cd_email candidate_data = None then
           (case validate_email (email_ok e) user_input of
              (False, error_msg) \<Rightarrow> (email_rejected error_msg, s)
            | (True, _) \<Rightarrow>
                (email_accepted,
                 s\<lparr>candidate_data := candidate_data\<lparr>cd_email := Some (sanitize_input user_input)\<rparr>\<rparr>))
         else if cd_phone candidate_data = None then
           (case validate_phone user_input of
              (False, error_msg) \<Rightarrow> (phone_rejected error_msg, s)
            | (True, _) \<Rightarrow>
                (phone_accepted,
                 s\<lparr>candidate_data := candidate_data\<lparr>cd_phone := Some (sanitize_input user_input)\<rparr>\<rparr>))
         else if cd_experience candidate_data = None then
           (case validate_experience user_input of
              (False, error_msg) \<Rightarrow> (experience_rejected error_msg, s)
            | (True, _) \<Rightarrow>
                (experience_accepted,
                 s\<lparr>candidate_data := candidate_data\<lparr>cd_experience := py_float user_input\<rparr>,
                   stage := TECH_ASSESSMENT\<rparr>))
         else (collect_went_wrong, s))"

definition handle_info_collection_stage :: "env \<Rightarrow> string \<Rightarrow> session \<Rightarrow> string \<times> session" where
  "handle_info_collection_stage e user_input s =
     (if \<not> consent_given s then
        (if strip (lower user_input) \<in> set consent_words
         then (start_info_collection, log_interaction ''consent_given'' (s\<lparr>consent_given := True\<rparr>))
         else (consent_required_prompt, s))
      else collect_candidate_info e user_input s)"

definition handle_tech_assessment_stage ::
  "env \<Rightarrow> string \<Rightarrow> session \<Rightarrow> (error + string) \<times> session" where
  "handle_tech_assessment_stage e user_input s =
     (case validate_tech_stack user_input of
        (False, error_msg) \<Rightarrow> (Inr (tech_stack_rejected error_msg), s)
      | (True, _) \<Rightarrow>
          (let tech_list = tech_tokens user_input;
               s1 = s\<lparr>candidate_data := (candidate_data s)\<lparr>cd_tech_stack := Some tech_list\<rparr>\<rparr>;
               candidate_experience =
                 (case cd_experience (candidate_data s1) of Some x \<Rightarrow> x | None \<Rightarrow> Finite 2)
           in case generate_questions_for_tech_stack e tech_list 3 candidate_experience s1 of
                (Inl err, s2) \<Rightarrow> (Inl err, s2)
              | (Inr questions_by_tech, s2) \<Rightarrow>
                  (let s3 = log_interaction ''candidate_profile_complete''
                              (s2\<lparr>technical_questions := questions_by_tech\<rparr>);
                       s4 = s3\<lparr>stage := TECHNICAL_QUESTIONS\<rparr>;
                       total_questions = sum_list (map (\<lambda>(tech, questions). length questions)
                                                     questions_by_tech)
                   in (Inr (tech_stack_accepted tech_list (float_str e candidate_experience)
                              (str_nat total_questions)), s4))))"

definition all_questions_of :: "(string \<times> string list) list \<Rightarrow> (string \<times> string) list" where
  "all_questions_of questions_by_tech =
     concat (map (\<lambda>(tech, questions). map (\<lambda>question. (tech, question)) questions)
               questions_by_tech)"

definition complete_assessment :: "env \<Rightarrow> session \<Rightarrow> string \<times> session" where
  "complete_assessment e s =
     (let candidate_data = candidate_data s
      in (completion_summary
            (case cd_name candidate_data of Some n \<Rightarrow> n | None \<Rightarrow> ''Candidate'')
            (case cd_name candidate_data of Some n \<Rightarrow> n | None \<Rightarrow> ''N/A'')
            (case cd_experience candidate_data of Some x \<Rightarrow> float_str e x | None \<Rightarrow> ''N/A'')
            (join '', '' (case cd_tech_stack candidate_data of Some ts \<Rightarrow> ts | None \<Rightarrow> []))
            (str_nat (length (case cd_answers candidate_data of Some a \<Rightarrow> a | None \<Rightarrow> [])))
            (case cd_email candidate_data of Some m \<Rightarrow> m | None \<Rightarrow> ''your email''),
          log_interaction ''assessment_complete'' s))"

text \<open>
  The block of \<open>handle_technical_questions_stage\<close> that stores and evaluates the answer to
  the previous question. \<open>all_questions[current_index - 1]\<close> raises \<open>IndexError\<close> beyond the
  end of the list, before anything is written. \<open>evaluate_technical_response\<close> cannot raise
  (the adapter absorbs every failure), so the \<open>except\<close> branch with its fixed
  acknowledgment is never taken.
\<close>

definition store_previous_answer ::
  "env \<Rightarrow> string \<Rightarrow> (string \<times> string) list \<Rightarrow> session \<Rightarrow> error + session" where
  "store_previous_answer e user_input all_questions s =
     (let current_index = current_question_index s
      in if current_index > 0 \<and> strip user_input \<noteq> [] then
           (if current_index - 1 < length all_questions then
              (let (prev_tech, prev_question) = all_questions ! (current_index - 1);
                   answers = (case cd_answers (candidate_data s) of Some a \<Rightarrow> a | None \<Rightarrow> []);
                   answers' = dict_set (prev_tech @ ''_'' @ str_nat (current_index - 1))
                                \<lparr>ans_question = prev_question,
                                 ans_answer = sanitize_input user_input,
                                 ans_technology = prev_tech\<rparr> answers;
                   s1 = s\<lparr>candidate_data := (candidate_data s)\<lparr>cd_answers := Some answers'\<rparr>\<rparr>;
                   (evaluation_response, s2) =
                     evaluate_technical_response e prev_question user_input prev_tech s1
               in Inr (add_message ''assistant'' evaluation_response s2))
            else Inl IndexError)
         else Inr s)"

definition handle_technical_questions_stage ::
  "env \<Rightarrow> string \<Rightarrow> session \<Rightarrow> (error + string) \<times> session" where
  "handle_technical_questions_stage e user_input s =
     (if technical_questions s = [] then (Inr no_questions_message, s)
      else if current_question_index s = 0
              \<and> strip (lower user_input) \<notin> set ready_words
        then (Inr ready_prompt, s)
      else (let all_questions = all_questions_of (technical_questions s);
                current_index = current_question_index s
            in case store_previous_answer e user_input all_questions s of
                 Inl err \<Rightarrow> (Inl err, s)
               | Inr s1 \<Rightarrow>
                   if current_index \<ge> length all_questions then
                     (let (text, s2) = complete_assessment e (s1\<lparr>stage := COMPLETION\<rparr>)
                      in (Inr text, s2))
                   else
                     (let (tech, question) = all_questions ! current_index;
                          s2 = s1\<lparr>current_question_index := current_question_index s1 + 1\<rparr>;
                          progress = progress_line (str_nat (current_index + 1))
                                       (str_nat (length all_questions)) (upper tech)
                      in (Inr (question_message progress question), s2))))"

definition restart_session :: "session \<Rightarrow> session" where
  \<comment> \<open>every key but \<open>session_id\<close> is deleted, then the six keys are set afresh\<close>
  "restart_session s =
     s\<lparr>stage := GREETING, candidate_data := empty_candidate, messages := [],
       current_question_index := 0, technical_questions := [], consent_given := False,
       company_name := None\<rparr>"

definition process_message :: "env \<Rightarrow> string \<Rightarrow> session \<Rightarrow> (error + string) \<times> session" where
  "process_message e user_input s =
     (if user_input = [] then (Inr empty_input_message, s)
      else (case check_exit_intent user_input s of
              (Inl err, s1) \<Rightarrow> (Inl err, s1)
            | (Inr True, s1) \<Rightarrow> (Inr farewell_message, s1)
            | (Inr False, s1) \<Rightarrow>
                if strip (lower user_input) = ''restart'' then
                  (let (text, s2) = handle_greeting_stage (restart_session s1) in (Inr text, s2))
                else (case stage s1 of
                        GREETING \<Rightarrow>
                          (let (text, s2) = handle_greeting_stage s1 in (Inr text, s2))
                      | CONSENT \<Rightarrow>
                          (let (text, s2) = handle_consent_stage user_input s1 in (Inr text, s2))
                      | INFO_COLLECTION \<Rightarrow>
                          (let (text, s2) = handle_info_collection_stage e user_input s1
                           in (Inr text, s2))
                      | TECH_ASSESSMENT \<Rightarrow> handle_tech_assessment_stage e user_input s1
                      | TECHNICAL_QUESTIONS \<Rightarrow> handle_technical_questions_stage e user_input s1
                      | COMPLETION \<Rightarrow> (Inr completed_message, s1))))"

section \<open>The stage order and the order of the fields, as the specification words them\<close>

definition next_stage :: "stage \<Rightarrow> stage" where
  "next_stage st =
     (case st of
        GREETING \<Rightarrow> CONSENT
      | CONSENT \<Rightarrow> INFO_COLLECTION
      | INFO_COLLECTION \<Rightarrow> TECH_ASSESSMENT
      | TECH_ASSESSMENT \<Rightarrow> TECHNICAL_QUESTIONS
      | TECHNICAL_QUESTIONS \<Rightarrow> COMPLETION
      | COMPLETION \<Rightarrow> COMPLETION)"

definition is_restart :: "string \<Rightarrow> bool" where
  "is_restart user_input = (strip (lower user_input) = ''restart'')"

text \<open>
  The stage moves the specification allows in one call: a restart leaves the stage at
  \<open>Greeting\<close>, any other input leaves it where it was or moves it one stage forward.
\<close>

definition spec_stage_move :: "string \<Rightarrow> stage \<Rightarrow> stage \<Rightarrow> bool" where
  "spec_stage_move user_input before after =
     (if is_restart user_input then after = GREETING
      else after = before \<or> after = next_stage before)"

datatype field = Name | Email | Phone | Experience

definition field_present :: "field \<Rightarrow> candidate \<Rightarrow> bool" where
  "field_present f cd =
     (case f of
        Name \<Rightarrow> cd_name cd \<noteq> None
      | Email \<Rightarrow> cd_email cd \<noteq> None
      | Phone \<Rightarrow> cd_phone cd \<noteq> None
      | Experience \<Rightarrow> cd_experience cd \<noteq> None)"

text \<open>The first field, in the order name, email, phone, experience, absent from the record.\<close>

definition spec_next_field :: "candidate \<Rightarrow> field option" where
  "spec_next_field cd = List.find (\<lambda>f. \<not> field_present f cd) [Name, Email, Phone, Experience]"

definition validate_field :: "env \<Rightarrow> field \<Rightarrow> string \<Rightarrow> bool \<times> string" where
  "validate_field e f user_input =
     (case f of
        Name \<Rightarrow> validate_name user_input
      | Email \<Rightarrow> validate_email (email_ok e) user_input
      | Phone \<Rightarrow> validate_phone user_input
      | Experience \<Rightarrow> validate_experience user_input)"

text \<open>
  Storing a validated field: sanitized, except the experience, which is stored as the
  parsed number and moves the stage to \<open>TechAssessment\<close>.
\<close>

definition store_field :: "field \<Rightarrow> string \<Rightarrow> session \<Rightarrow> session" where
  "store_field f user_input s =
     (case f of
        Name \<Rightarrow> s\<lparr>candidate_data := (candidate_data s)\<lparr>cd_name := Some (sanitize_input user_input)\<rparr>\<rparr>
      | Email \<Rightarrow> s\<lparr>candidate_data := (candidate_data s)\<lparr>cd_email := Some (sanitize_input user_input)\<rparr>\<rparr>
      | Phone \<Rightarrow> s\<lparr>candidate_data := (candidate_data s)\<lparr>cd_phone := Some (sanitize_input user_input)\<rparr>\<rparr>
      | Experience \<Rightarrow>
          s\<lparr>candidate_data := (candidate_data s)\<lparr>cd_experience := py_float user_input\<rparr>,
            stage := TECH_ASSESSMENT\<rparr>)"

definition field_rejected :: "field \<Rightarrow> string \<Rightarrow> string" where
  "field_rejected f error_msg =
     (case f of
        Name \<Rightarrow> name_rejected error_msg
      | Email \<Rightarrow> email_rejected error_msg
      | Phone \<Rightarrow> phone_rejected error_msg
      | Experience \<Rightarrow> experience_rejected error_msg)"

definition field_accepted :: "field \<Rightarrow> string" where
  "field_accepted f =
     (case f of
        Name \<Rightarrow> name_accepted
      | Email \<Rightarrow> email_accepted
      | Phone \<Rightarrow> phone_accepted
      | Experience \<Rightarrow> experience_accepted)"

text \<open>
  One step of the collection as the specification describes it: the next missing field is
  validated; a rejection re-prompts for the same field and changes nothing; an accepted
  value is stored.
\<close>

definition spec_collect :: "env \<Rightarrow> string \<Rightarrow> session \<Rightarrow> string \<times> session" where
  "spec_collect e user_input s =
     (case spec_next_field (candidate_data s) of
        None \<Rightarrow> (collect_went_wrong, s)
      | Some f \<Rightarrow>
          (case validate_field e f user_input of
             (False, error_msg) \<Rightarrow> (field_rejected f error_msg, s)
           | (True, _) \<Rightarrow> (field_accepted f, store_field f user_input s)))"

text \<open>
  A field of the profile that is present in the record before a call has the same value
  after it.
\<close>

definition keeps_present :: "candidate \<Rightarrow> candidate \<Rightarrow> bool" where
  "keeps_present cd cd' =
     ((cd_name cd \<noteq> None \<longrightarrow> cd_name cd' = cd_name cd)
      \<and> (cd_email cd \<noteq> None \<longrightarrow> cd_email cd' = cd_email cd)
      \<and> (cd_phone cd \<noteq> None \<longrightarrow> cd_phone cd' = cd_phone cd)
      \<and> (cd_experience cd \<noteq> None \<longrightarrow> cd_experience cd' = cd_experience cd))"

section \<open>Framing and examples\<close>

text \<open>What the adapter and the question supplier may change: the three fields of the world.\<close>

definition frame :: "'a world_scheme \<Rightarrow> 'a world_scheme \<Rightarrow> bool" where
  "frame w w' = (\<exists>a b c. w' = w\<lparr>gen_calls := a, rnd_calls := b, trace := c\<rparr>)"

text \<open>
  An environment in which no API key is set, so that no model is configured, and one in
  which the model is configured and every call to it raises. Both print a float as
  \<open>2.0\<close>, the only float the examples print.
\<close>

definition offline :: env where
  "offline =
     \<lparr>email_ok = (\<lambda>_. True), float_str = (\<lambda>_. ''2.0''), model_cfg = False,
      generate_content = (\<lambda>_ _. Raises), random_draw = (\<lambda>_. 0),
      random_sample = (\<lambda>_ xs k. take k xs)\<rparr>"

definition unreachable :: env where
  "unreachable = offline\<lparr>model_cfg := True\<rparr>"

text \<open>The session as \<open>ConversationManager.__init__\<close> sets it up.\<close>

definition fresh_session :: session where
  "fresh_session =
     \<lparr>gen_calls = 0, rnd_calls = 0, trace = [],
      stage = GREETING, candidate_data = empty_candidate, messages = [],
      current_question_index = 0, technical_questions = [], consent_given = False,
      company_name = None\<rparr>"

text \<open>An interview about one technology with two questions, \<open>k\<close> of them asked so far.\<close>

definition interview :: "nat \<Rightarrow> session" where
  "interview k =
     fresh_session\<lparr>stage := TECHNICAL_QUESTIONS, consent_given := True,
       technical_questions := [(''Go'', [''What is a goroutine?'', ''What is a channel?''])],
       current_question_index := k\<rparr>"

text \<open>A session in the middle of the collection: consent given, the name stored.\<close>

definition collecting :: session where
  "collecting =
     fresh_session\<lparr>stage := INFO_COLLECTION, consent_given := True,
       candidate_data := empty_candidate\<lparr>cd_name := Some ''Ada Lovelace''\<rparr>\<rparr>"

section \<open>Evaluation and string lemmas\<close>

lemmas char_class_defs = isspace_def isdigit_def isalpha_def lower_char_def upper_char_def

lemmas str_defs = char_class_defs lower_def upper_def strip_def lstrip_def rstrip_def

lemmas float_defs = py_float_def float_number_def digits_val_def digit_val_def scale10_def
  fl_lt_def fl_gt_def

lemma str_in_iff: "str_in sub s \<longleftrightarrow> (\<exists>p q. s = p @ sub @ q)"
proof (induction s)
  case Nil
  then show ?case by auto
next
  case (Cons c cs)
  show ?case
  proof
    assume "str_in sub (c # cs)"
    then consider "prefix sub (c # cs)" | "str_in sub cs" by auto
    then show "\<exists>p q. c # cs = p @ sub @ q"
    proof cases
      case 1
      then obtain q where "c # cs = sub @ q" by (auto simp: prefix_def)
      then have "c # cs = [] @ sub @ q" by simp
      then show ?thesis by blast
    next
      case 2
      with Cons.IH obtain p q where "cs = p @ sub @ q" by blast
      then have "c # cs = (c # p) @ sub @ q" by simp
      then show ?thesis by blast
    qed
  next
    assume "\<exists>p q. c # cs = p @ sub @ q"
    then obtain p q where pq: "c # cs = p @ sub @ q" by blast
    show "str_in sub (c # cs)"
    proof (cases p)
      case Nil
      with pq have "prefix sub (c # cs)" by (simp add: prefix_def)
      then show ?thesis by simp
    next
      case (Cons a p')
      with pq have "cs = p' @ sub @ q" by simp
      with Cons.IH have "str_in sub cs" by blast
      then show ?thesis by simp
    qed
  qed
qed

lemma str_in_append_left: "str_in sub b \<Longrightarrow> str_in sub (a @ b)"
  unfolding str_in_iff by (metis append.assoc)

lemma str_in_append_right: "str_in sub a \<Longrightarrow> str_in sub (a @ b)"
  unfolding str_in_iff by (metis append.assoc)

lemma lower_append: "lower (a @ b) = lower a @ lower b"
  by (simp add: lower_def)

section \<open>The experience validator\<close>

lemma validate_experience_examples:
  "validate_experience ''2.5'' = (True, [])"
  "py_float ''2.5'' = Some (Finite (5 / 2))"
  "validate_experience ''-1'' = (False, ''Years of experience cannot be negative'')"
  "validate_experience ''abc'' = (False, ''Please enter a valid number for years of experience'')"
  "validate_experience ''51'' = (False, ''Years of experience seems too high'')"
  "validate_experience [] = (False, ''Years of experience is required'')"
  by (simp_all add: validate_experience_def str_defs float_defs)

text \<open>
  C4. The validator is meant to accept exactly the texts that are a number between 0 and
  50. The text \<open>nan\<close> is read by \<open>float\<close> as NaN, which is neither below 0 nor above 50 for
  Python's comparisons, so the validator accepts it although it is no number in the
  interval.
\<close>

theorem validate_experience_accepts_nan:
  "py_float ''nan'' = Some NaN \<and> validate_experience ''nan'' = (True, [])"
  by (simp add: validate_experience_def str_defs float_defs)

section \<open>The adapter\<close>

lemma frame_refl: "frame w w"
proof -
  have "w = w\<lparr>gen_calls := gen_calls w, rnd_calls := rnd_calls w, trace := trace w\<rparr>" by simp
  then show ?thesis unfolding frame_def by blast
qed

lemma frame_trans:
  assumes "frame w w'" and "frame w' w''"
  shows "frame w w''"
proof -
  from assms(1) obtain a b c where 1: "w' = w\<lparr>gen_calls := a, rnd_calls := b, trace := c\<rparr>"
    unfolding frame_def by blast
  from assms(2) obtain a' b' c' where 2: "w'' = w'\<lparr>gen_calls := a', rnd_calls := b', trace := c'\<rparr>"
    unfolding frame_def by blast
  from 1 2 have "w'' = w\<lparr>gen_calls := a', rnd_calls := b', trace := c'\<rparr>" by simp
  then show ?thesis unfolding frame_def by blast
qed

lemma frame_gen_calls: "frame w (w\<lparr>gen_calls := a\<rparr>)"
proof -
  have "w\<lparr>gen_calls := a\<rparr> = w\<lparr>gen_calls := a, rnd_calls := rnd_calls w, trace := trace w\<rparr>" by simp
  then show ?thesis unfolding frame_def by blast
qed

lemma frame_rnd_calls: "frame w (w\<lparr>rnd_calls := a\<rparr>)"
proof -
  have "w\<lparr>rnd_calls := a\<rparr> = w\<lparr>gen_calls := gen_calls w, rnd_calls := a, trace := trace w\<rparr>" by simp
  then show ?thesis unfolding frame_def by blast
qed

lemma frame_trace: "frame w (w\<lparr>trace := a\<rparr>)"
proof -
  have "w\<lparr>trace := a\<rparr> = w\<lparr>gen_calls := gen_calls w, rnd_calls := rnd_calls w, trace := a\<rparr>" by simp
  then show ?thesis unfolding frame_def by blast
qed

lemma frame_session:
  assumes "frame s s'"
  shows "stage s' = stage s" "candidate_data s' = candidate_data s" "messages s' = messages s"
    "current_question_index s' = current_question_index s"
    "technical_questions s' = technical_questions s" "consent_given s' = consent_given s"
    "company_name s' = company_name s"
  using assms unfolding frame_def by auto



lemma fallback_evaluations_length: "length fallback_evaluations = 3"
  by (simp add: fallback_evaluations_def)

lemma fallback_response_fst:
  "rnd_calls w1 = rnd_calls w \<Longrightarrow> fst (fallback_response e p w1) = fst (fallback_response e p w)"
  by (simp add: fallback_response_def fallback_evaluation_def)

lemma fallback_response_world:
  "gen_calls (snd (fallback_response e p w)) = gen_calls w"
  "trace (snd (fallback_response e p w)) = trace w"
  by (simp_all add: fallback_response_def fallback_evaluation_def)

lemma fallback_response_frame: "frame w (snd (fallback_response e p w))"
  by (simp add: fallback_response_def fallback_evaluation_def frame_refl frame_rnd_calls)

lemma fallback_response_cases:
  "fst (fallback_response e p w) =
     (if str_in ''technical question'' (lower p) then fallback_technical_questions
      else if str_in ''evaluate'' (lower p) \<or> str_in ''response'' (lower p)
        then fallback_evaluations ! (random_draw e (rnd_calls w) mod 3)
      else fallback_generic)"
  by (simp add: fallback_response_def fallback_evaluation_def fallback_evaluations_length)

lemma retry_loop_calls:
  "gen_calls (snd (retry_loop e p m as w)) \<le> gen_calls w + length as"
proof (induction as arbitrary: w)
  case Nil
  then show ?case by (simp add: fallback_response_world)
next
  case (Cons a as)
  show ?case
  proof (cases "generate_content e (gen_calls w) p")
    case Raises
    show ?thesis
    proof (cases "int a = m - 1")
      case True
      with Raises show ?thesis by (simp add: fallback_response_world)
    next
      case False
      have "gen_calls (snd (retry_loop e p m as (w\<lparr>gen_calls := Suc (gen_calls w),
              trace := trace w @ [Slept (2 ^ a)]\<rparr>))) \<le> Suc (gen_calls w) + length as"
        using Cons.IH [of "w\<lparr>gen_calls := Suc (gen_calls w), trace := trace w @ [Slept (2 ^ a)]\<rparr>"]
        by simp
      with Raises False show ?thesis by simp
    qed
  next
    case (Text t)
    show ?thesis
    proof (cases "t = []")
      case True
      have "gen_calls (snd (retry_loop e p m as (w\<lparr>gen_calls := Suc (gen_calls w)\<rparr>)))
              \<le> Suc (gen_calls w) + length as"
        using Cons.IH [of "w\<lparr>gen_calls := Suc (gen_calls w)\<rparr>"] by simp
      with Text True show ?thesis by simp
    next
      case False
      with Text show ?thesis by simp
    qed
  qed
qed

lemma retry_loop_frame: "frame w (snd (retry_loop e p m as w))"
proof (induction as arbitrary: w)
  case Nil
  then show ?case by (simp add: fallback_response_frame)
next
  case (Cons a as)
  let ?w1 = "w\<lparr>gen_calls := Suc (gen_calls w)\<rparr>"
  have f1: "frame w ?w1" by (rule frame_gen_calls)
  show ?case
  proof (cases "generate_content e (gen_calls w) p")
    case Raises
    show ?thesis
    proof (cases "int a = m - 1")
      case True
      let ?w2 = "?w1\<lparr>trace := trace ?w1 @ [Warned ''LLM unavailable, using fallback response'']\<rparr>"
      have "frame w ?w2" using f1 frame_trace frame_trans by blast
      then have "frame w (snd (fallback_response e p ?w2))"
        using fallback_response_frame frame_trans by blast
      with Raises True show ?thesis by simp
    next
      case False
      let ?w2 = "?w1\<lparr>trace := trace ?w1 @ [Slept (2 ^ a)]\<rparr>"
      have "frame w ?w2" using f1 frame_trace frame_trans by blast
      then have "frame w (snd (retry_loop e p m as ?w2))"
        using Cons.IH frame_trans by blast
      with Raises False show ?thesis by simp
    qed
  next
    case (Text t)
    show ?thesis
    proof (cases "t = []")
      case True
      have "frame w (snd (retry_loop e p m as ?w1))"
        using f1 Cons.IH frame_trans by blast
      with Text True show ?thesis by simp
    next
      case False
      with Text f1 show ?thesis by simp
    qed
  qed
qed

lemma generate_response_frame: "frame w (snd (generate_response e p m w))"
  by (simp add: generate_response_def fallback_response_frame retry_loop_frame)

text \<open>
  When every attempt fails, by raising or by an empty text, the answer is the canned one;
  when every attempt raises, the loop sleeps 1, 2, 4, ... seconds between the attempts.
\<close>

lemma retry_loop_exhausted:
  "(\<forall>i < length as. generate_content e (gen_calls w + i) p = Raises
        \<or> generate_content e (gen_calls w + i) p = Text [])
   \<Longrightarrow> fst (retry_loop e p m as (w :: 'a world_scheme)) = fst (fallback_response e p w)"
proof (induction as arbitrary: w)
  case Nil
  then show ?case by simp
next
  case (Cons a as)
  from Cons.prems have h0: "generate_content e (gen_calls w) p = Raises
        \<or> generate_content e (gen_calls w) p = Text []" by force
  have rest: "\<forall>i < length as. generate_content e (Suc (gen_calls w) + i) p = Raises
        \<or> generate_content e (Suc (gen_calls w) + i) p = Text []"
  proof (intro allI impI)
    fix i assume "i < length as"
    then have "Suc i < length (a # as)" by simp
    with Cons.prems have "generate_content e (gen_calls w + Suc i) p = Raises
        \<or> generate_content e (gen_calls w + Suc i) p = Text []" by blast
    then show "generate_content e (Suc (gen_calls w) + i) p = Raises
        \<or> generate_content e (Suc (gen_calls w) + i) p = Text []" by simp
  qed
  have ih: "fst (retry_loop e p m as w') = fst (fallback_response e p w)"
    if g: "gen_calls w' = Suc (gen_calls w)" and r: "rnd_calls w' = rnd_calls w"
    for w' :: "'a world_scheme"
  proof -
    from rest g have "\<forall>i < length as. generate_content e (gen_calls w' + i) p = Raises
        \<or> generate_content e (gen_calls w' + i) p = Text []" by simp
    then have "fst (retry_loop e p m as w') = fst (fallback_response e p w')" by (rule Cons.IH)
    also have "\<dots> = fst (fallback_response e p w)" using r by (rule fallback_response_fst)
    finally show "fst (retry_loop e p m as w') = fst (fallback_response e p w)" .
  qed
  from h0 show ?case
  proof
    assume R: "generate_content e (gen_calls w) p = Raises"
    show ?thesis
    proof (cases "int a = m - 1")
      case True
      with R show ?thesis by (simp add: fallback_response_cases)
    next
      case False
      with R show ?thesis by (simp add: ih)
    qed
  next
    assume T: "generate_content e (gen_calls w) p = Text []"
    then show ?thesis by (simp add: ih)
  qed
qed

lemma retry_loop_backoff:
  "a < n \<Longrightarrow> (\<forall>i < n - a. generate_content e (gen_calls w + i) p = Raises)
   \<Longrightarrow> trace (snd (retry_loop e p (int n) [a..<n] w)) =
         trace w @ map (\<lambda>i. Slept (2 ^ i)) [a..<n - 1]
           @ [Warned ''LLM unavailable, using fallback response'']"
proof (induction "n - a" arbitrary: a w)
  case 0
  then show ?case by simp
next
  case (Suc d)
  from Suc.prems have R: "generate_content e (gen_calls w) p = Raises" by force
  from Suc.prems have upt: "[a..<n] = a # [Suc a..<n]" by (simp add: upt_conv_Cons)
  show ?case
  proof (cases "Suc a = n")
    case True
    then have "int a = int n - 1" by simp
    moreover from True have "[a..<n - 1] = []" by auto
    moreover from True have "[a..<n] = [a]" by (simp add: upt)
    ultimately show ?thesis using R by (simp add: fallback_response_world)
  next
    case False
    with Suc.prems have lt: "Suc a < n" by simp
    then have ne: "int a \<noteq> int n - 1" by simp
    let ?w2 = "w\<lparr>gen_calls := Suc (gen_calls w), trace := trace w @ [Slept (2 ^ a)]\<rparr>"
    have d: "d = n - Suc a" using Suc.hyps by simp
    have all: "\<forall>i < n - Suc a. generate_content e (gen_calls ?w2 + i) p = Raises"
    proof (intro allI impI)
      fix i assume "i < n - Suc a"
      then have "Suc i < n - a" by simp
      with Suc.prems have "generate_content e (gen_calls w + Suc i) p = Raises" by blast
      then show "generate_content e (gen_calls ?w2 + i) p = Raises" by simp
    qed
    have "trace (snd (retry_loop e p (int n) [Suc a..<n] ?w2)) =
            trace ?w2 @ map (\<lambda>i. Slept (2 ^ i)) [Suc a..<n - 1]
              @ [Warned ''LLM unavailable, using fallback response'']"
      using Suc.hyps(1) [OF d lt all] .
    moreover have "[a..<n - 1] = a # [Suc a..<n - 1]" using lt by (simp add: upt_conv_Cons)
    ultimately show ?thesis using R ne upt by simp
  qed
qed

text \<open>
  C9. \<open>generate_response\<close> returns a text for every prompt: a call of the model that
  raises is a value of the model, and no result of the function is an error. It calls the
  model at most \<open>max_retries\<close> times. Without a configured model it answers with the
  canned response at once. When every attempt fails (it raises or yields an empty text) the
  answer is the canned response, and when every attempt raises the loop sleeps
  \<open>2 ^ 0, 2 ^ 1, ...\<close> seconds between the attempts and warns after the last. The canned
  response is chosen from the lowercased prompt: the three canned questions joined by line
  breaks when it mentions \<open>technical question\<close>; otherwise one of the three
  acknowledgments when it mentions \<open>evaluate\<close> or \<open>response\<close>; otherwise the generic line.
\<close>

theorem generate_response_contract:
  fixes w :: "'a world_scheme"
  shows "gen_calls (snd (generate_response e p m w)) \<le> gen_calls w + nat m
    \<and> (\<not> model_cfg e \<longrightarrow> generate_response e p m w = fallback_response e p w)
    \<and> ((\<forall>i < nat m. generate_content e (gen_calls w + i) p = Raises
                    \<or> generate_content e (gen_calls w + i) p = Text [])
        \<longrightarrow> fst (generate_response e p m w) = fst (fallback_response e p w))
    \<and> (model_cfg e \<and> 0 < m \<and> (\<forall>i < nat m. generate_content e (gen_calls w + i) p = Raises)
        \<longrightarrow> trace (snd (generate_response e p m w)) =
              trace w @ map (\<lambda>i. Slept (2 ^ i)) [0..<nat m - 1]
                @ [Warned ''LLM unavailable, using fallback response''])
    \<and> (str_in ''technical question'' (lower p)
        \<longrightarrow> fst (fallback_response e p w) = join ''\<newline>'' fallback_questions
            \<and> length fallback_questions = 3)
    \<and> (\<not> str_in ''technical question'' (lower p)
          \<and> (str_in ''evaluate'' (lower p) \<or> str_in ''response'' (lower p))
        \<longrightarrow> fst (fallback_response e p w) \<in> set fallback_evaluations)
    \<and> (\<not> str_in ''technical question'' (lower p) \<and> \<not> str_in ''evaluate'' (lower p)
          \<and> \<not> str_in ''response'' (lower p)
        \<longrightarrow> fst (fallback_response e p w) = fallback_generic)"
proof -
  have c1: "gen_calls (snd (generate_response e p m w)) \<le> gen_calls w + nat m"
    using retry_loop_calls [of e p m "[0..<nat m]" w]
    by (simp add: generate_response_def fallback_response_world)
  have c2: "\<not> model_cfg e \<longrightarrow> generate_response e p m w = fallback_response e p w"
    by (simp add: generate_response_def)
  have c3: "(\<forall>i < nat m. generate_content e (gen_calls w + i) p = Raises
                    \<or> generate_content e (gen_calls w + i) p = Text [])
        \<longrightarrow> fst (generate_response e p m w) = fst (fallback_response e p w)"
    using retry_loop_exhausted [of "[0..<nat m]" e w p m]
    by (simp add: generate_response_def)
  have c4: "model_cfg e \<and> 0 < m \<and> (\<forall>i < nat m. generate_content e (gen_calls w + i) p = Raises)
        \<longrightarrow> trace (snd (generate_response e p m w)) =
              trace w @ map (\<lambda>i. Slept (2 ^ i)) [0..<nat m - 1]
                @ [Warned ''LLM unavailable, using fallback response'']"
  proof (intro impI, elim conjE)
    assume cfg: "model_cfg e" and pos: "0 < m"
      and all: "\<forall>i < nat m. generate_content e (gen_calls w + i) p = Raises"
    from pos have n: "0 < nat m" and m: "int (nat m) = m" by simp_all
    from all have "\<forall>i < nat m - 0. generate_content e (gen_calls w + i) p = Raises" by simp
    from retry_loop_backoff [OF n this] m cfg
    show "trace (snd (generate_response e p m w)) =
              trace w @ map (\<lambda>i. Slept (2 ^ i)) [0..<nat m - 1]
                @ [Warned ''LLM unavailable, using fallback response'']"
      by (simp add: generate_response_def)
  qed
  have c5: "str_in ''technical question'' (lower p)
        \<longrightarrow> fst (fallback_response e p w) = join ''\<newline>'' fallback_questions
            \<and> length fallback_questions = 3"
    by (simp add: fallback_response_cases fallback_technical_questions_def fallback_questions_def)
  have c6: "\<not> str_in ''technical question'' (lower p)
          \<and> (str_in ''evaluate'' (lower p) \<or> str_in ''response'' (lower p))
        \<longrightarrow> fst (fallback_response e p w) \<in> set fallback_evaluations"
    by (auto simp add: fallback_response_cases fallback_evaluations_length)
  have c7: "\<not> str_in ''technical question'' (lower p) \<and> \<not> str_in ''evaluate'' (lower p)
          \<and> \<not> str_in ''response'' (lower p)
        \<longrightarrow> fst (fallback_response e p w) = fallback_generic"
    by (simp add: fallback_response_cases)
  from c1 c2 c3 c4 c5 c6 c7 show ?thesis by blast
qed

lemma keyword_examples:
  "\<not> str_in ''technical question'' (lower ''Please evaluate this answer'')"
  "str_in ''evaluate'' (lower ''Please evaluate this answer'')"
  by (simp_all add: lower_def lower_char_def)

theorem generate_response_contract_witness:
  "generate_response offline ''Please evaluate this answer'' 3 fresh_session
     = fallback_response offline ''Please evaluate this answer'' fresh_session
   \<and> fst (generate_response unreachable ''Please evaluate this answer'' 3 fresh_session)
       \<in> set fallback_evaluations
   \<and> trace (snd (generate_response unreachable ''Please evaluate this answer'' 3 fresh_session))
       = [Slept 1, Slept 2, Warned ''LLM unavailable, using fallback response'']
   \<and> gen_calls (snd (generate_response unreachable ''Please evaluate this answer'' 3 fresh_session)) \<le> 3"
proof -
  note a = generate_response_contract [of offline "''Please evaluate this answer''" 3 fresh_session]
  note b = generate_response_contract [of unreachable "''Please evaluate this answer''" 3 fresh_session]
  have off: "\<not> model_cfg offline" by (simp add: offline_def)
  have cfg: "model_cfg unreachable" by (simp add: unreachable_def offline_def)
  have all: "\<forall>i < nat 3. generate_content unreachable (gen_calls fresh_session + i)
               ''Please evaluate this answer'' = Raises"
    by (simp add: unreachable_def offline_def)
  have tr: "trace fresh_session = []" and gc: "gen_calls fresh_session = 0"
    by (simp_all add: fresh_session_def)
  have upt: "[0..<2] = [0, Suc 0]" by (simp add: upt_rec)
  from a off have 1: "generate_response offline ''Please evaluate this answer'' 3 fresh_session
     = fallback_response offline ''Please evaluate this answer'' fresh_session" by blast
  from b all have "fst (generate_response unreachable ''Please evaluate this answer'' 3 fresh_session)
       = fst (fallback_response unreachable ''Please evaluate this answer'' fresh_session)" by blast
  moreover from b keyword_examples
  have "fst (fallback_response unreachable ''Please evaluate this answer'' fresh_session)
          \<in> set fallback_evaluations" by blast
  ultimately have 2: "fst (generate_response unreachable ''Please evaluate this answer'' 3 fresh_session)
       \<in> set fallback_evaluations" by simp
  from b cfg all have "trace (snd (generate_response unreachable ''Please evaluate this answer'' 3 fresh_session))
       = trace fresh_session @ map (\<lambda>i. Slept (2 ^ i)) [0..<nat 3 - 1]
                @ [Warned ''LLM unavailable, using fallback response'']" by simp
  then have 3: "trace (snd (generate_response unreachable ''Please evaluate this answer'' 3 fresh_session))
       = [Slept 1, Slept 2, Warned ''LLM unavailable, using fallback response'']"
    by (simp add: tr upt)
  from b gc have 4: "gen_calls (snd (generate_response unreachable ''Please evaluate this answer'' 3 fresh_session)) \<le> 3"
    by simp
  from 1 2 3 4 show ?thesis by blast
qed

section \<open>The question supplier\<close>

lemma prompt_mentions_technical_question:
  "str_in ''technical question''
     (lower (TECHNICAL_QUESTION_GENERATOR num_questions technology experience_level years))"
proof -
  have "str_in ''technical question''
          (lower '' relevant, practical technical questions for a candidate with experience in '')"
    by (simp add: lower_def lower_char_def)
  then show ?thesis
    unfolding TECHNICAL_QUESTION_GENERATOR_def lower_append
    by (intro str_in_append_left [of _ _ "lower ''You are an expert technical interviewer for a hiring company called TalentScout. \<newline>''"]
              str_in_append_left [of _ _ "lower ''    Generate ''"]
              str_in_append_left [of _ _ "lower num_questions"]
              str_in_append_right)
qed

lemma parse_fallback_technical_questions:
  "parse_questions fallback_technical_questions =
     [''Describe a challenging project you've worked on and how you approached solving the technical problems.'',
      ''How do you ensure code quality and maintainability in your projects?'',
      ''Explain a time when you had to learn a new technology quickly. How did you approach it?'']"
  by (simp add: parse_questions_def parse_line_def fallback_technical_questions_def
        fallback_questions_def after_dot_def bullet_def List.map_filter_simps str_defs)

lemma generate_response_offline:
  "\<not> model_cfg e \<Longrightarrow>
   generate_response e (TECHNICAL_QUESTION_GENERATOR n t l y) m w = (fallback_technical_questions, w)"
  by (simp add: generate_response_def fallback_response_def prompt_mentions_technical_question)

lemma generate_technical_questions_offline:
  assumes "\<not> model_cfg e"
  shows "generate_technical_questions e technology x n w =
     (slice_to n
        (if 3 < n
         then parse_questions fallback_technical_questions
                @ slice_to (n - 3) (fallback_templates technology)
         else parse_questions fallback_technical_questions), w)"
proof -
  have "length (parse_questions fallback_technical_questions) = 3"
    by (simp add: parse_fallback_technical_questions)
  then show ?thesis
    by (simp add: generate_technical_questions_def generate_response_offline [OF assms])
qed

lemma generate_technical_questions_frame:
  "frame w (snd (generate_technical_questions e technology x n w))"
proof -
  obtain r w' where r: "generate_response e (TECHNICAL_QUESTION_GENERATOR (str_int n) technology
      (experience_level_of x) (float_str e x)) 3 w = (r, w')"
    by (cases "generate_response e (TECHNICAL_QUESTION_GENERATOR (str_int n) technology
      (experience_level_of x) (float_str e x)) 3 w")
  have "frame w (snd (generate_response e (TECHNICAL_QUESTION_GENERATOR (str_int n) technology
      (experience_level_of x) (float_str e x)) 3 w))"
    by (rule generate_response_frame)
  with r have "frame w w'" by simp
  with r show ?thesis by (simp add: generate_technical_questions_def Let_def)
qed

lemma generate_technical_questions_length:
  assumes "0 \<le> n" and "n \<le> 3"
  shows "length (fst (generate_technical_questions e technology x n w)) = nat n"
proof -
  obtain r w' where r: "generate_response e (TECHNICAL_QUESTION_GENERATOR (str_int n) technology
      (experience_level_of x) (float_str e x)) 3 w = (r, w')"
    by (cases "generate_response e (TECHNICAL_QUESTION_GENERATOR (str_int n) technology
      (experience_level_of x) (float_str e x)) 3 w")
  have t: "length (fallback_templates technology) = 3" by (simp add: fallback_templates_def)
  show ?thesis
  proof (cases "int (length (parse_questions r)) < n")
    case True
    with assms have "nat (n - int (length (parse_questions r))) \<le> 3" by simp
    with True assms r t show ?thesis
      by (simp add: generate_technical_questions_def slice_to_def Let_def)
  next
    case False
    with assms r show ?thesis
      by (simp add: generate_technical_questions_def slice_to_def Let_def)
  qed
qed

text \<open>
  C5. \<open>generate_technical_questions\<close> is meant to return exactly the requested number of
  questions whenever the adapter yields a usable one. Its padding has three templates only:
  without a configured model the adapter yields the three canned questions, all usable, and
  a request for seven questions is answered with six.
\<close>

theorem generate_technical_questions_short_of_seven:
  "\<not> model_cfg e \<Longrightarrow>
   length (parse_questions (fst (generate_response e
       (TECHNICAL_QUESTION_GENERATOR (str_int 7) technology (experience_level_of x) (float_str e x))
       3 w))) = 3
   \<and> length (fst (generate_technical_questions e technology x 7 w)) = 6"
  by (simp add: generate_technical_questions_offline generate_response_offline
        parse_fallback_technical_questions slice_to_def fallback_templates_def)

theorem generate_technical_questions_short_of_seven_witness:
  "length (fst (generate_technical_questions offline ''Go'' (Finite 2) 7 fresh_session)) = 6"
proof -
  have "\<not> model_cfg offline" by (simp add: offline_def)
  from generate_technical_questions_short_of_seven [OF this, of "''Go''" "Finite 2" fresh_session]
  show ?thesis by simp
qed

lemma canned_questions_without_erlang:
  "\<not> list_ex (str_in ''Erlang'')
     [''Describe a challenging project you've worked on and how you approached solving the technical problems.'',
      ''How do you ensure code quality and maintainability in your projects?'',
      ''Explain a time when you had to learn a new technology quickly. How did you approach it?'']"
  by simp

text \<open>
  C2. For the technology Erlang, with no model configured, the supplier is meant to return
  three templated questions that mention Erlang. The adapter answers the question prompt
  with its three canned questions, which parse, so the supplier never reaches the static
  bank or the templates: the three questions it returns do not mention Erlang.
\<close>



theorem erlang_gets_canned_questions:
  "\<not> model_cfg e \<Longrightarrow>
   fst (generate_questions_for_tech_stack e [''Erlang''] 3 x w) =
     Inr [(''Erlang'',
       [''Describe a challenging project you've worked on and how you approached solving the technical problems.'',
        ''How do you ensure code quality and maintainability in your projects?'',
        ''Explain a time when you had to learn a new technology quickly. How did you approach it?''])]
   \<and> \<not> list_ex (str_in ''Erlang'')
     [''Describe a challenging project you've worked on and how you approached solving the technical problems.'',
      ''How do you ensure code quality and maintainability in your projects?'',
      ''Explain a time when you had to learn a new technology quickly. How did you approach it?'']"
proof -
  assume off: "\<not> model_cfg e"
  have "fst (generate_questions_for_tech_stack e [''Erlang''] 3 x w) =
     Inr [(''Erlang'',
       [''Describe a challenging project you've worked on and how you approached solving the technical problems.'',
        ''How do you ensure code quality and maintainability in your projects?'',
        ''Explain a time when you had to learn a new technology quickly. How did you approach it?''])]"
    by (simp add: generate_questions_for_tech_stack_def generate_technical_questions_offline [OF off]
          parse_fallback_technical_questions slice_to_def)
  with canned_questions_without_erlang show ?thesis by blast
qed

theorem erlang_gets_canned_questions_witness:
  "fst (generate_questions_for_tech_stack offline [''Erlang''] 3 (Finite 2) fresh_session) =
     Inr [(''Erlang'',
       [''Describe a challenging project you've worked on and how you approached solving the technical problems.'',
        ''How do you ensure code quality and maintainability in your projects?'',
        ''Explain a time when you had to learn a new technology quickly. How did you approach it?''])]"
proof -
  have "\<not> model_cfg offline" by (simp add: offline_def)
  from erlang_gets_canned_questions [OF this, of "Finite 2" fresh_session]
  show ?thesis by blast
qed


section \<open>The conversation manager: framing\<close>

lemma strip_empty_iff: "strip u = [] \<longleftrightarrow> list_all isspace u"
proof
  assume e: "strip u = []"
  show "list_all isspace u"
  proof (rule ccontr)
    assume "\<not> list_all isspace u"
    then have ne: "dropWhile isspace u \<noteq> []" by (simp add: list_all_iff dropWhile_eq_Nil_conv)
    then have "\<not> isspace (hd (dropWhile isspace u))" by (rule hd_dropWhile)
    moreover from ne have "hd (dropWhile isspace u) \<in> set (rev (dropWhile isspace u))" by simp
    ultimately have "dropWhile isspace (rev (dropWhile isspace u)) \<noteq> []"
      by (metis dropWhile_eq_Nil_conv)
    with e show False by (simp add: strip_def rstrip_def lstrip_def)
  qed
next
  assume "list_all isspace u"
  then have d: "dropWhile isspace u = []" by (simp add: list_all_iff dropWhile_eq_Nil_conv)
  show "strip u = []" unfolding strip_def rstrip_def lstrip_def d by simp
qed

lemma isspace_lower_char: "isspace c \<Longrightarrow> isspace (lower_char c)"
proof -
  assume "isspace c"
  then have "c = CHR 0x09 \<or> c = CHR 0x0A \<or> c = CHR 0x0B \<or> c = CHR 0x0C \<or> c = CHR 0x0D
      \<or> c = CHR 0x1C \<or> c = CHR 0x1D \<or> c = CHR 0x1E \<or> c = CHR 0x1F \<or> c = CHR 0x20"
    by (simp add: isspace_def)
  then show ?thesis
    by (elim disjE) (simp_all add: isspace_def lower_char_def)
qed

lemma strip_lower_empty: "strip u = [] \<Longrightarrow> strip (lower u) = []"
  by (simp add: strip_empty_iff lower_def list_all_iff isspace_lower_char)

lemma check_exit_blank:
  "user_input \<noteq> [] \<Longrightarrow> strip (lower user_input) = [] \<Longrightarrow>
   check_exit_intent user_input s = (Inr False, s)"
  by (simp add: check_exit_intent_def EXIT_KEYWORDS_def)

lemma is_restart_nonempty: "is_restart user_input \<Longrightarrow> user_input \<noteq> []"
  by (auto simp add: is_restart_def str_defs)

lemma check_exit_restart:
  "is_restart user_input \<Longrightarrow> check_exit_intent user_input s = (Inr False, s)"
  using is_restart_nonempty [of user_input]
  by (simp add: check_exit_intent_def EXIT_KEYWORDS_def is_restart_def)

lemma log_interaction_frame: "frame w (log_interaction t w)"
  by (simp add: log_interaction_def frame_trace)

lemma check_exit_frame: "frame s (snd (check_exit_intent user_input s))"
proof -
  have "frame s (handle_data_deletion_request s)"
    unfolding handle_data_deletion_request_def Let_def
    using log_interaction_frame frame_trace frame_trans by blast
  then show ?thesis by (simp add: check_exit_intent_def Let_def frame_refl)
qed

lemma get_fallback_questions_frame: "frame w (snd (get_fallback_questions e tech n w))"
  by (simp add: get_fallback_questions_def Let_def frame_refl frame_rnd_calls split: option.splits)

lemma questions_loop_three:
  "\<exists>d' w'. questions_loop e 3 x techs d w = (Inr d', w') \<and> frame w w'"
proof (induction techs arbitrary: d w)
  case Nil
  then show ?case by (simp add: frame_refl)
next
  case (Cons tech rest)
  obtain qs w1 where g: "generate_technical_questions e tech x 3 w = (qs, w1)"
    by (cases "generate_technical_questions e tech x 3 w")
  have "length (fst (generate_technical_questions e tech x 3 w)) = nat 3"
    by (rule generate_technical_questions_length) simp_all
  with g have ne: "qs \<noteq> []" by auto
  have "frame w (snd (generate_technical_questions e tech x 3 w))"
    by (rule generate_technical_questions_frame)
  with g have f1: "frame w w1" by simp
  from Cons.IH [of "dict_set tech qs d" w1] obtain d' w'
    where r: "questions_loop e 3 x rest (dict_set tech qs d) w1 = (Inr d', w')" and f2: "frame w1 w'"
    by blast
  from f1 f2 have "frame w w'" by (rule frame_trans)
  with g ne r show ?case by simp
qed

lemma evaluate_technical_response_frame:
  "frame w (snd (evaluate_technical_response e q a t w))"
  by (simp add: evaluate_technical_response_def generate_response_frame)

section \<open>The conversation manager: the handlers\<close>

lemma validate_tech_stack_accepts:
  "fst (validate_tech_stack u) \<Longrightarrow> 1 \<le> length (tech_tokens u) \<and> length (tech_tokens u) \<le> 10"
  by (cases "tech_tokens u") (auto simp add: validate_tech_stack_def Let_def split: if_splits)

lemma handle_tech_assessment_rejected:
  "\<not> fst (validate_tech_stack u) \<Longrightarrow>
   handle_tech_assessment_stage e u s = (Inr (tech_stack_rejected (snd (validate_tech_stack u))), s)"
  by (cases "validate_tech_stack u") (simp add: handle_tech_assessment_stage_def)

lemma handle_tech_assessment_accepted:
  assumes "fst (validate_tech_stack u)"
  shows "\<exists>text s'. handle_tech_assessment_stage e u s = (Inr text, s')
           \<and> stage s' = TECHNICAL_QUESTIONS
           \<and> candidate_data s' = (candidate_data s)\<lparr>cd_tech_stack := Some (tech_tokens u)\<rparr>
           \<and> messages s' = messages s
           \<and> current_question_index s' = current_question_index s"
proof -
  let ?s1 = "s\<lparr>candidate_data := (candidate_data s)\<lparr>cd_tech_stack := Some (tech_tokens u)\<rparr>\<rparr>"
  let ?x = "case cd_experience (candidate_data ?s1) of Some x \<Rightarrow> x | None \<Rightarrow> Finite 2"
  from questions_loop_three [of e ?x "tech_tokens u" "[]" ?s1] obtain d' s2
    where q: "questions_loop e 3 ?x (tech_tokens u) [] ?s1 = (Inr d', s2)" and f: "frame ?s1 s2"
    by blast
  from assms obtain msg where v: "validate_tech_stack u = (True, msg)"
    by (cases "validate_tech_stack u") simp
  note fs = frame_session [OF f]
  let ?s4 = "(log_interaction ''candidate_profile_complete''
               (s2\<lparr>technical_questions := d'\<rparr>))\<lparr>stage := TECHNICAL_QUESTIONS\<rparr>"
  have "handle_tech_assessment_stage e u s =
          (Inr (tech_stack_accepted (tech_tokens u) (float_str e ?x)
                  (str_nat (sum_list (map (\<lambda>(tech, questions). length questions) d')))), ?s4)"
    using v q
    by (simp add: handle_tech_assessment_stage_def generate_questions_for_tech_stack_def Let_def)
  moreover have "stage ?s4 = TECHNICAL_QUESTIONS" by simp
  moreover have "candidate_data ?s4 = (candidate_data s)\<lparr>cd_tech_stack := Some (tech_tokens u)\<rparr>"
    using fs by (simp add: log_interaction_def)
  moreover have "messages ?s4 = messages s" using fs by (simp add: log_interaction_def)
  moreover have "current_question_index ?s4 = current_question_index s"
    using fs by (simp add: log_interaction_def)
  ultimately show ?thesis by blast
qed

lemma store_previous_answer_skip:
  "\<not> (0 < current_question_index s \<and> strip u \<noteq> []) \<Longrightarrow>
   store_previous_answer e u qs s = Inr s"
  by (auto simp add: store_previous_answer_def)

lemma store_previous_answer_error:
  "0 < current_question_index s \<Longrightarrow> strip u \<noteq> [] \<Longrightarrow>
   \<not> current_question_index s - 1 < length qs \<Longrightarrow>
   store_previous_answer e u qs s = Inl IndexError"
  by (simp add: store_previous_answer_def)

lemma store_previous_answer_stores:
  assumes "0 < current_question_index s" and "strip u \<noteq> []"
    and "current_question_index s - 1 < length qs"
  shows "\<exists>s'. store_previous_answer e u qs s = Inr s'
           \<and> stage s' = stage s
           \<and> current_question_index s' = current_question_index s
           \<and> technical_questions s' = technical_questions s
           \<and> candidate_data s' = (candidate_data s)\<lparr>cd_answers :=
                Some (dict_set (fst (qs ! (current_question_index s - 1)) @ ''_''
                                  @ str_nat (current_question_index s - 1))
                        \<lparr>ans_question = snd (qs ! (current_question_index s - 1)),
                         ans_answer = sanitize_input u,
                         ans_technology = fst (qs ! (current_question_index s - 1))\<rparr>
                        (case cd_answers (candidate_data s) of Some a \<Rightarrow> a | None \<Rightarrow> []))\<rparr>"
proof -
  let ?k = "current_question_index s"
  let ?t = "fst (qs ! (?k - 1))" and ?q = "snd (qs ! (?k - 1))"
  let ?ans = "dict_set (?t @ ''_'' @ str_nat (?k - 1))
                \<lparr>ans_question = ?q, ans_answer = sanitize_input u, ans_technology = ?t\<rparr>
                (case cd_answers (candidate_data s) of Some a \<Rightarrow> a | None \<Rightarrow> [])"
  let ?s1 = "s\<lparr>candidate_data := (candidate_data s)\<lparr>cd_answers := Some ?ans\<rparr>\<rparr>"
  obtain r s2 where ev: "evaluate_technical_response e ?q u ?t ?s1 = (r, s2)"
    by (cases "evaluate_technical_response e ?q u ?t ?s1")
  have "frame ?s1 (snd (evaluate_technical_response e ?q u ?t ?s1))"
    by (rule evaluate_technical_response_frame)
  with ev have f: "frame ?s1 s2" by simp
  note fs = frame_session [OF f]
  have "store_previous_answer e u qs s = Inr (add_message ''assistant'' r s2)"
    using assms ev by (simp add: store_previous_answer_def Let_def case_prod_beta)
  moreover have "stage (add_message ''assistant'' r s2) = stage s"
    using fs by (simp add: add_message_def)
  moreover have "current_question_index (add_message ''assistant'' r s2) = ?k"
    using fs by (simp add: add_message_def)
  moreover have "technical_questions (add_message ''assistant'' r s2) = technical_questions s"
    using fs by (simp add: add_message_def)
  moreover have "candidate_data (add_message ''assistant'' r s2)
                   = (candidate_data s)\<lparr>cd_answers := Some ?ans\<rparr>"
    using fs by (simp add: add_message_def)
  ultimately show ?thesis by blast
qed

lemma complete_assessment_state:
  "snd (complete_assessment e s) = log_interaction ''assessment_complete'' s"
  by (simp add: complete_assessment_def Let_def)

lemma map_of_dict_set: "map_of (dict_set k v d) k = Some v"
  by (induction d) auto

lemma handle_technical_questions_raises:
  assumes "technical_questions s \<noteq> []"
    and "\<not> (current_question_index s = 0
            \<and> strip (lower u) \<notin> set ready_words)"
    and "store_previous_answer e u (all_questions_of (technical_questions s)) s = Inl err"
  shows "handle_technical_questions_stage e u s = (Inl err, s)"
proof -
  from assms(2) have g: "(current_question_index s = 0 \<and> strip (lower u) \<notin> set ready_words) = False"
    by blast
  show ?thesis
    using assms(1,3) by (simp add: g handle_technical_questions_stage_def Let_def)
qed

lemma handle_technical_questions_continues:
  assumes "technical_questions s \<noteq> []"
    and "\<not> (current_question_index s = 0
            \<and> strip (lower u) \<notin> set ready_words)"
    and "store_previous_answer e u (all_questions_of (technical_questions s)) s = Inr s1"
  shows "handle_technical_questions_stage e u s =
     (if length (all_questions_of (technical_questions s)) \<le> current_question_index s
      then (Inr (fst (complete_assessment e (s1\<lparr>stage := COMPLETION\<rparr>))),
            log_interaction ''assessment_complete'' (s1\<lparr>stage := COMPLETION\<rparr>))
      else (Inr (question_message
                   (progress_line (str_nat (current_question_index s + 1))
                      (str_nat (length (all_questions_of (technical_questions s))))
                      (upper (fst (all_questions_of (technical_questions s) ! current_question_index s))))
                   (snd (all_questions_of (technical_questions s) ! current_question_index s))),
            s1\<lparr>current_question_index := current_question_index s1 + 1\<rparr>))"
proof -
  have c: "complete_assessment e (s1\<lparr>stage := COMPLETION\<rparr>) =
             (fst (complete_assessment e (s1\<lparr>stage := COMPLETION\<rparr>)),
              log_interaction ''assessment_complete'' (s1\<lparr>stage := COMPLETION\<rparr>))"
    using complete_assessment_state [of e "s1\<lparr>stage := COMPLETION\<rparr>"]
    by (metis prod.collapse)
  from assms(2) have g: "(current_question_index s = 0 \<and> strip (lower u) \<notin> set ready_words) = False"
    by blast
  show ?thesis
  proof (cases "length (all_questions_of (technical_questions s)) \<le> current_question_index s")
    case True
    have "handle_technical_questions_stage e u s =
            (let (text, s2) = complete_assessment e (s1\<lparr>stage := COMPLETION\<rparr>) in (Inr text, s2))"
      using assms(1,3) True by (simp add: g handle_technical_questions_stage_def Let_def)
    also have "\<dots> = (Inr (fst (complete_assessment e (s1\<lparr>stage := COMPLETION\<rparr>))),
            log_interaction ''assessment_complete'' (s1\<lparr>stage := COMPLETION\<rparr>))"
      by (subst c) simp
    finally show ?thesis using True by simp
  next
    case False
    with assms(1,3) show ?thesis
      by (simp add: g handle_technical_questions_stage_def Let_def case_prod_beta)
  qed
qed

text \<open>An answer to the previous question: what the handler leaves behind.\<close>

lemma technical_answer_step:
  assumes tq: "technical_questions s \<noteq> []"
    and k: "0 < current_question_index s"
    and u: "strip u \<noteq> []"
    and b: "current_question_index s \<le> length (all_questions_of (technical_questions s))"
  shows "candidate_data (snd (handle_technical_questions_stage e u s)) =
           (candidate_data s)\<lparr>cd_answers :=
              Some (dict_set (fst (all_questions_of (technical_questions s) ! (current_question_index s - 1))
                                @ ''_'' @ str_nat (current_question_index s - 1))
                      \<lparr>ans_question = snd (all_questions_of (technical_questions s) ! (current_question_index s - 1)),
                       ans_answer = sanitize_input u,
                       ans_technology = fst (all_questions_of (technical_questions s) ! (current_question_index s - 1))\<rparr>
                      (case cd_answers (candidate_data s) of Some a \<Rightarrow> a | None \<Rightarrow> []))\<rparr>"
    and "current_question_index (snd (handle_technical_questions_stage e u s)) =
           (if current_question_index s < length (all_questions_of (technical_questions s))
            then current_question_index s + 1 else current_question_index s)"
    and "stage (snd (handle_technical_questions_stage e u s)) =
           (if current_question_index s < length (all_questions_of (technical_questions s))
            then stage s else COMPLETION)"
    and "current_question_index s < length (all_questions_of (technical_questions s)) \<Longrightarrow>
         fst (handle_technical_questions_stage e u s) =
           Inr (question_message
                  (progress_line (str_nat (current_question_index s + 1))
                     (str_nat (length (all_questions_of (technical_questions s))))
                     (upper (fst (all_questions_of (technical_questions s) ! current_question_index s))))
                  (snd (all_questions_of (technical_questions s) ! current_question_index s)))"
proof -
  let ?all = "all_questions_of (technical_questions s)"
  from k b have lt: "current_question_index s - 1 < length ?all" by simp
  from store_previous_answer_stores [OF k u lt, of e] obtain s1 where
    st: "store_previous_answer e u ?all s = Inr s1" and
    s1: "stage s1 = stage s" "current_question_index s1 = current_question_index s"
        "candidate_data s1 = (candidate_data s)\<lparr>cd_answers :=
              Some (dict_set (fst (?all ! (current_question_index s - 1))
                                @ ''_'' @ str_nat (current_question_index s - 1))
                      \<lparr>ans_question = snd (?all ! (current_question_index s - 1)),
                       ans_answer = sanitize_input u,
                       ans_technology = fst (?all ! (current_question_index s - 1))\<rparr>
                      (case cd_answers (candidate_data s) of Some a \<Rightarrow> a | None \<Rightarrow> []))\<rparr>"
    by blast
  from k have g: "\<not> (current_question_index s = 0
            \<and> strip (lower u) \<notin> set ready_words)" by simp
  note h = handle_technical_questions_continues [OF tq g st]
  show "candidate_data (snd (handle_technical_questions_stage e u s)) =
           (candidate_data s)\<lparr>cd_answers :=
              Some (dict_set (fst (?all ! (current_question_index s - 1))
                                @ ''_'' @ str_nat (current_question_index s - 1))
                      \<lparr>ans_question = snd (?all ! (current_question_index s - 1)),
                       ans_answer = sanitize_input u,
                       ans_technology = fst (?all ! (current_question_index s - 1))\<rparr>
                      (case cd_answers (candidate_data s) of Some a \<Rightarrow> a | None \<Rightarrow> []))\<rparr>"
    using s1 by (simp add: h log_interaction_def)
  show "current_question_index (snd (handle_technical_questions_stage e u s)) =
           (if current_question_index s < length ?all
            then current_question_index s + 1 else current_question_index s)"
    using s1 by (simp add: h log_interaction_def)
  show "stage (snd (handle_technical_questions_stage e u s)) =
           (if current_question_index s < length ?all then stage s else COMPLETION)"
    using s1 by (simp add: h log_interaction_def)
  show "fst (handle_technical_questions_stage e u s) =
           Inr (question_message
                  (progress_line (str_nat (current_question_index s + 1))
                     (str_nat (length ?all))
                     (upper (fst (?all ! current_question_index s))))
                  (snd (?all ! current_question_index s)))"
    if "current_question_index s < length ?all"
    using that by (simp add: h)
qed

text \<open>An input of whitespace only, after the first question was asked.\<close>

lemma technical_blank_step:
  assumes tq: "technical_questions s \<noteq> []"
    and k: "0 < current_question_index s"
    and u: "strip u = []"
  shows "handle_technical_questions_stage e u s =
     (if length (all_questions_of (technical_questions s)) \<le> current_question_index s
      then (Inr (fst (complete_assessment e (s\<lparr>stage := COMPLETION\<rparr>))),
            log_interaction ''assessment_complete'' (s\<lparr>stage := COMPLETION\<rparr>))
      else (Inr (question_message
                   (progress_line (str_nat (current_question_index s + 1))
                      (str_nat (length (all_questions_of (technical_questions s))))
                      (upper (fst (all_questions_of (technical_questions s) ! current_question_index s))))
                   (snd (all_questions_of (technical_questions s) ! current_question_index s))),
            s\<lparr>current_question_index := current_question_index s + 1\<rparr>))"
proof -
  from u have st: "store_previous_answer e u (all_questions_of (technical_questions s)) s = Inr s"
    by (simp add: store_previous_answer_skip)
  from k have g: "\<not> (current_question_index s = 0
            \<and> strip (lower u) \<notin> set ready_words)" by simp
  from handle_technical_questions_continues [OF tq g st] show ?thesis .
qed

lemma blank_not_restart: "strip u = [] \<Longrightarrow> \<not> is_restart u"
  by (simp add: is_restart_def strip_lower_empty)

lemma process_message_blank:
  assumes "u \<noteq> []" and "strip u = []" and "stage s = TECHNICAL_QUESTIONS"
  shows "process_message e u s = handle_technical_questions_stage e u s"
  using assms blank_not_restart [of u] check_exit_blank [of u s] strip_lower_empty [of u]
  by (simp add: process_message_def is_restart_def)

lemma interview_facts:
  "technical_questions (interview k) \<noteq> []"
  "current_question_index (interview k) = k"
  "stage (interview k) = TECHNICAL_QUESTIONS"
  "all_questions_of (technical_questions (interview k)) =
     [(''Go'', ''What is a goroutine?''), (''Go'', ''What is a channel?'')]"
  "cd_answers (candidate_data (interview k)) = None"
  by (simp_all add: interview_def fresh_session_def all_questions_of_def empty_candidate_def)

section \<open>Answers and the question cursor\<close>

text \<open>
  C1 (as the code has it). In the technical-questions handler, with questions present, the
  cursor at \<open>k > 0\<close>, an input that is not blank after trimming, and \<open>k\<close> within the list of
  questions: the answer is stored under the key made of the technology of question \<open>k - 1\<close>
  and the index \<open>k - 1\<close>, with that question, the sanitized input and that technology. When
  a question \<open>k\<close> exists the cursor becomes \<open>k + 1\<close> and the stage stays; when question
  \<open>k - 1\<close> was the last one the cursor stays at \<open>k\<close> and the stage becomes \<open>Completion\<close>.
\<close>

theorem technical_answer_stored_and_cursor:
  assumes "technical_questions s \<noteq> []"
    and "0 < current_question_index s"
    and "strip user_input \<noteq> []"
    and "current_question_index s \<le> length (all_questions_of (technical_questions s))"
  shows "(case cd_answers (candidate_data (snd (handle_technical_questions_stage e user_input s))) of
            None \<Rightarrow> False
          | Some answers \<Rightarrow>
              map_of answers
                (fst (all_questions_of (technical_questions s) ! (current_question_index s - 1))
                   @ ''_'' @ str_nat (current_question_index s - 1))
              = Some \<lparr>ans_question =
                        snd (all_questions_of (technical_questions s) ! (current_question_index s - 1)),
                      ans_answer = sanitize_input user_input,
                      ans_technology =
                        fst (all_questions_of (technical_questions s) ! (current_question_index s - 1))\<rparr>)
     \<and> (current_question_index s < length (all_questions_of (technical_questions s)) \<longrightarrow>
          current_question_index (snd (handle_technical_questions_stage e user_input s))
            = current_question_index s + 1
          \<and> stage (snd (handle_technical_questions_stage e user_input s)) = stage s)
     \<and> (current_question_index s = length (all_questions_of (technical_questions s)) \<longrightarrow>
          current_question_index (snd (handle_technical_questions_stage e user_input s))
            = current_question_index s
          \<and> stage (snd (handle_technical_questions_stage e user_input s)) = COMPLETION)"
  using technical_answer_step(1-3) [OF assms, of e]
  by (simp add: map_of_dict_set)

theorem technical_answer_stored_and_cursor_witness:
  "map_of (the (cd_answers (candidate_data
       (snd (handle_technical_questions_stage offline ''a light thread'' (interview 1))))))
     ''Go_0''
     = Some \<lparr>ans_question = ''What is a goroutine?'', ans_answer = ''a light thread'',
             ans_technology = ''Go''\<rparr>
   \<and> current_question_index
       (snd (handle_technical_questions_stage offline ''a light thread'' (interview 1))) = 2"
proof -
  have u: "strip ''a light thread'' \<noteq> []" by (simp add: str_defs)
  have sn: "sanitize_input ''a light thread'' = ''a light thread''"
    by (simp add: sanitize_input_def dangerous_char_def str_defs)
  have b: "current_question_index (interview 1)
             \<le> length (all_questions_of (technical_questions (interview 1)))"
    by (simp add: interview_facts)
  have k: "0 < current_question_index (interview 1)" by (simp add: interview_facts)
  from technical_answer_stored_and_cursor [OF interview_facts(1) k u b, of offline]
  show ?thesis
    by (simp add: interview_facts sn split: option.splits)
qed

theorem last_answer_leaves_cursor:
  "current_question_index (interview 2) = 2
   \<and> current_question_index
       (snd (handle_technical_questions_stage offline ''a typed pipe'' (interview 2))) = 2
   \<and> stage (snd (handle_technical_questions_stage offline ''a typed pipe'' (interview 2)))
       = COMPLETION"
proof -
  have u: "strip ''a typed pipe'' \<noteq> []" by (simp add: str_defs)
  have b: "current_question_index (interview 2)
             \<le> length (all_questions_of (technical_questions (interview 2)))"
    by (simp add: interview_facts)
  have k: "0 < current_question_index (interview 2)" by (simp add: interview_facts)
  from technical_answer_step(2,3) [OF interview_facts(1) k u b, of offline]
  show ?thesis by (simp add: interview_facts)
qed

text \<open>
  C10 (as the code has it). In the technical-questions stage, with questions present and
  the cursor at \<open>k > 0\<close>, an input that is not empty but blank after trimming reaches the
  handler, and nothing is stored or evaluated. When a question \<open>k\<close> exists, the call
  returns that question and changes the session in the cursor only, which becomes
  \<open>k + 1\<close>. When \<open>k\<close> is the number of questions, the call completes the assessment
  instead: the stage becomes \<open>Completion\<close>, the completion is logged, the cursor stays.
\<close>

theorem blank_answer_is_dropped:
  assumes "stage s = TECHNICAL_QUESTIONS"
    and "technical_questions s \<noteq> []"
    and "0 < current_question_index s"
    and "user_input \<noteq> []"
    and "strip user_input = []"
  shows "(current_question_index s < length (all_questions_of (technical_questions s)) \<longrightarrow>
          process_message e user_input s =
            (Inr (question_message
                    (progress_line (str_nat (current_question_index s + 1))
                       (str_nat (length (all_questions_of (technical_questions s))))
                       (upper (fst (all_questions_of (technical_questions s) ! current_question_index s))))
                    (snd (all_questions_of (technical_questions s) ! current_question_index s))),
             s\<lparr>current_question_index := current_question_index s + 1\<rparr>))
     \<and> (length (all_questions_of (technical_questions s)) \<le> current_question_index s \<longrightarrow>
          process_message e user_input s =
            (Inr (fst (complete_assessment e (s\<lparr>stage := COMPLETION\<rparr>))),
             log_interaction ''assessment_complete'' (s\<lparr>stage := COMPLETION\<rparr>)))"
  using process_message_blank [OF assms(4,5,1), of e] technical_blank_step [OF assms(2,3,5), of e]
  by simp

theorem blank_answer_is_dropped_witness:
  "process_message offline '' '' (interview 1) =
     (Inr (question_message (progress_line ''2'' ''2'' ''GO'') ''What is a channel?''),
      (interview 1)\<lparr>current_question_index := 2\<rparr>)"
proof -
  have u: "strip '' '' = []" by (simp add: str_defs)
  have ne: "'' '' \<noteq> []" by simp
  have k: "0 < current_question_index (interview 1)" by (simp add: interview_facts)
  have up: "upper ''Go'' = ''GO''" by (simp add: upper_def upper_char_def)
  from blank_answer_is_dropped [OF interview_facts(3) interview_facts(1) k ne u, of offline]
  show ?thesis by (simp add: interview_facts up)
qed

theorem blank_after_last_question_completes:
  "current_question_index (snd (process_message offline '' '' (interview 2))) = 2
   \<and> stage (snd (process_message offline '' '' (interview 2))) = COMPLETION
   \<and> cd_answers (candidate_data (snd (process_message offline '' '' (interview 2)))) = None"
proof -
  have u: "strip '' '' = []" by (simp add: str_defs)
  have ne: "'' '' \<noteq> []" by simp
  have k: "0 < current_question_index (interview 2)" by (simp add: interview_facts)
  have "process_message offline '' '' (interview 2)
          = handle_technical_questions_stage offline '' '' (interview 2)"
    by (rule process_message_blank [OF ne u interview_facts(3)])
  with technical_blank_step [OF interview_facts(1) k u, of offline]
  show ?thesis by (simp add: interview_facts log_interaction_def)
qed

section \<open>What each handler changes\<close>

lemma check_exit_cases:
  "(\<exists>s1. check_exit_intent u s = (Inl StopException, s1) \<and> frame s s1)
   \<or> check_exit_intent u s = (Inr True, s)
   \<or> check_exit_intent u s = (Inr False, s)"
proof -
  have "frame s (handle_data_deletion_request s)"
    unfolding handle_data_deletion_request_def Let_def
    using log_interaction_frame frame_trace frame_trans by blast
  then show ?thesis by (simp add: check_exit_intent_def Let_def)
qed

lemma keeps_present_refl: "keeps_present cd cd"
  by (simp add: keeps_present_def)

lemma keeps_present_tech_stack: "keeps_present cd (cd\<lparr>cd_tech_stack := x\<rparr>)"
  by (simp add: keeps_present_def)

lemma keeps_present_answers: "keeps_present cd (cd\<lparr>cd_answers := x\<rparr>)"
  by (simp add: keeps_present_def)

lemma handle_greeting_effect:
  "stage (snd (handle_greeting_stage s)) = CONSENT"
  "candidate_data (snd (handle_greeting_stage s)) = candidate_data s"
  by (simp_all add: handle_greeting_stage_def)

lemma handle_consent_effect:
  "stage (snd (handle_consent_stage u s)) = stage s
     \<or> stage (snd (handle_consent_stage u s)) = INFO_COLLECTION"
  "candidate_data (snd (handle_consent_stage u s)) = candidate_data s"
  by (simp_all add: handle_consent_stage_def)

lemma collect_candidate_info_spec:
  "collect_candidate_info e u s = spec_collect e u s"
proof (cases "validate_name u")
  case vn: (Pair bn mn)
  show ?thesis
  proof (cases "validate_email (email_ok e) u")
    case ve: (Pair be me)
    show ?thesis
    proof (cases "validate_phone u")
      case vp: (Pair bp mp)
      show ?thesis
      proof (cases "validate_experience u")
        case vx: (Pair bx mx)
        show ?thesis
          using vn ve vp vx
          by (cases bn; cases be; cases bp; cases bx)
            (simp_all add: collect_candidate_info_def spec_collect_def spec_next_field_def
              field_present_def validate_field_def store_field_def field_rejected_def
              field_accepted_def Let_def)
      qed
    qed
  qed
qed

lemma spec_collect_effect:
  "stage (snd (spec_collect e u s)) = stage s \<or> stage (snd (spec_collect e u s)) = TECH_ASSESSMENT"
  "keeps_present (candidate_data s) (candidate_data (snd (spec_collect e u s)))"
proof -
  show "stage (snd (spec_collect e u s)) = stage s
          \<or> stage (snd (spec_collect e u s)) = TECH_ASSESSMENT"
    by (cases "spec_next_field (candidate_data s)")
      (auto simp add: spec_collect_def store_field_def split: prod.splits bool.splits field.splits)
  show "keeps_present (candidate_data s) (candidate_data (snd (spec_collect e u s)))"
  proof (cases "spec_next_field (candidate_data s)")
    case None
    then show ?thesis by (simp add: spec_collect_def keeps_present_refl)
  next
    case (Some f)
    then have "\<not> field_present f (candidate_data s)"
      by (auto simp add: spec_next_field_def split: if_splits)
    with Some show ?thesis
      by (cases f)
        (auto simp add: spec_collect_def store_field_def keeps_present_def field_present_def
           split: prod.splits bool.splits)
  qed
qed

lemma handle_info_collection_effect:
  "stage (snd (handle_info_collection_stage e u s)) = stage s
     \<or> stage (snd (handle_info_collection_stage e u s)) = TECH_ASSESSMENT"
  "keeps_present (candidate_data s) (candidate_data (snd (handle_info_collection_stage e u s)))"
  using spec_collect_effect [where e = e and u = u and s = s]
  by (simp_all add: handle_info_collection_stage_def collect_candidate_info_spec
        log_interaction_def keeps_present_refl)

lemma handle_tech_assessment_effect:
  "stage (snd (handle_tech_assessment_stage e u s)) = stage s
     \<or> stage (snd (handle_tech_assessment_stage e u s)) = TECHNICAL_QUESTIONS"
  "keeps_present (candidate_data s) (candidate_data (snd (handle_tech_assessment_stage e u s)))"
proof -
  have "(stage (snd (handle_tech_assessment_stage e u s)) = stage s
     \<or> stage (snd (handle_tech_assessment_stage e u s)) = TECHNICAL_QUESTIONS)
    \<and> keeps_present (candidate_data s) (candidate_data (snd (handle_tech_assessment_stage e u s)))"
  proof (cases "fst (validate_tech_stack u)")
    case True
    from handle_tech_assessment_accepted [OF True, where e = e and s = s] obtain msg s' where
      "handle_tech_assessment_stage e u s = (Inr msg, s')" "stage s' = TECHNICAL_QUESTIONS"
      "candidate_data s' = (candidate_data s)\<lparr>cd_tech_stack := Some (tech_tokens u)\<rparr>"
      by blast
    then show ?thesis by (simp add: keeps_present_tech_stack)
  next
    case False
    then show ?thesis by (simp add: handle_tech_assessment_rejected keeps_present_refl)
  qed
  then show "stage (snd (handle_tech_assessment_stage e u s)) = stage s
     \<or> stage (snd (handle_tech_assessment_stage e u s)) = TECHNICAL_QUESTIONS"
    and "keeps_present (candidate_data s) (candidate_data (snd (handle_tech_assessment_stage e u s)))"
    by blast+
qed

lemma handle_technical_questions_effect:
  "stage (snd (handle_technical_questions_stage e u s)) = stage s
     \<or> stage (snd (handle_technical_questions_stage e u s)) = COMPLETION"
  "keeps_present (candidate_data s) (candidate_data (snd (handle_technical_questions_stage e u s)))"
proof -
  let ?all = "all_questions_of (technical_questions s)"
  let ?r = "handle_technical_questions_stage e u s"
  have "(stage (snd ?r) = stage s \<or> stage (snd ?r) = COMPLETION)
          \<and> keeps_present (candidate_data s) (candidate_data (snd ?r))"
  proof (cases "technical_questions s = []
      \<or> (current_question_index s = 0 \<and> strip (lower u) \<notin> set ready_words)")
    case True
    then have "?r = (Inr no_questions_message, s) \<or> ?r = (Inr ready_prompt, s)"
      by (auto simp add: handle_technical_questions_stage_def)
    then show ?thesis by (auto simp add: keeps_present_refl)
  next
    case False
    then have tq: "technical_questions s \<noteq> []"
      and g: "\<not> (current_question_index s = 0 \<and> strip (lower u) \<notin> set ready_words)"
      by blast+
    show ?thesis
    proof (cases "store_previous_answer e u ?all s")
      case (Inl err)
      from handle_technical_questions_raises [OF tq g Inl] show ?thesis
        by (simp add: keeps_present_refl)
    next
      case (Inr s1)
      have s1: "stage s1 = stage s \<and> keeps_present (candidate_data s) (candidate_data s1)"
      proof (cases "0 < current_question_index s \<and> strip u \<noteq> []")
        case False
        with Inr have "s1 = s" by (simp add: store_previous_answer_skip)
        then show ?thesis by (simp add: keeps_present_refl)
      next
        case True
        show ?thesis
        proof (cases "current_question_index s - 1 < length ?all")
          case lt: True
          from store_previous_answer_stores [where s = s and u = u and qs = ?all and e = e] True lt Inr
          show ?thesis by (auto simp add: keeps_present_answers)
        next
          case ge: False
          with True Inr show ?thesis by (simp add: store_previous_answer_error)
        qed
      qed
      from handle_technical_questions_continues [OF tq g Inr] s1 show ?thesis
        by (simp add: log_interaction_def)
    qed
  qed
  then show "stage (snd ?r) = stage s \<or> stage (snd ?r) = COMPLETION"
    and "keeps_present (candidate_data s) (candidate_data (snd ?r))"
    by blast+
qed

end
